theory Spec2Isabelle
  imports Complex_Main
begin

section \<open>The stimpl evaluator (src/stimpl/runtime.py)\<close>

subsection \<open>Types\<close>

text \<open>
  Modelled from the spec: the semantic type tags of \<^verbatim>\<open>stimpl.types\<close> (the module is
  not part of the sources at hand). The spec gives a closed set of five tags compared by
  structural equality, with no subtyping, so the class patterns \<^verbatim>\<open>case Integer():\<close> of
  the evaluator are tag tests.
\<close>

datatype stype = Unit | Integer | FloatingPoint | String | Boolean

subsection \<open>Host floats\<close>

text \<open>
  A Python float is an IEEE 754 binary64 number: a finite value, which is a rational
  (the constructor \<open>Finite\<close>, with \<open>Finite 0\<close> for plus zero), minus zero, an infinity
  or NaN. The operators round to nearest, ties to even, as the host's do. \<open>Finite q\<close>
  is a double when \<open>q\<close> is a value that rounding yields (\<open>is_double\<close>); the
  operators return doubles only.
\<close>

datatype pyfloat = Finite rat | NegZero | PosInf | NegInf | NaN

text \<open>
  Rounding a rational to the nearest double, ties to the even significand: 53
  significant bits down to the exponent \<open>-1074\<close> of the subnormal numbers, and
  overflow from \<open>2 ^ 1024\<close> on.
\<close>

definition pow2 :: "int \<Rightarrow> rat" where
  "pow2 p = (if 0 \<le> p then 2 ^ nat p else 1 / 2 ^ nat (- p))"

text \<open>The number of bits of a positive integer (\<^verbatim>\<open>int.bit_length\<close>).\<close>

function bit_length :: "int \<Rightarrow> int" where
  "bit_length n = (if n \<le> 0 then 0 else 1 + bit_length (n div 2))"
  by pat_completeness auto
termination
  by (relation "measure nat") auto

declare bit_length.simps [simp del]

text \<open>For \<open>a > 0\<close>, the integer \<open>e\<close> with \<open>2 ^ e \<le> a < 2 ^ (e + 1)\<close>.\<close>

definition floor_log2 :: "rat \<Rightarrow> int" where
  "floor_log2 a =
     (if 1 \<le> a then bit_length \<lfloor>a\<rfloor> - 1
      else - bit_length (\<lceil>1 / a\<rceil> - 1))"

definition round_half_even :: "rat \<Rightarrow> int" where
  "round_half_even x =
     (let f = \<lfloor>x\<rfloor>; d = x - of_int f
      in if d < 1 / 2 then f
         else if 1 / 2 < d then f + 1
         else if even f then f else f + 1)"

text \<open>
  The double nearest to \<open>a > 0\<close>: a multiple of \<open>2 ^ p\<close>, where \<open>p\<close> leaves 53
  bits, or \<open>None\<close> when it overflows. The result may be zero (underflow).
\<close>

definition round_magnitude :: "rat \<Rightarrow> rat option" where
  "round_magnitude a =
     (let p = max (floor_log2 a - 52) (- 1074);
          v = of_int (round_half_even (a / pow2 p)) * pow2 p
      in if 2 ^ 1024 \<le> v then None else Some v)"

definition round64 :: "rat \<Rightarrow> pyfloat" where
  "round64 q =
     (if q = 0 then Finite 0
      else case round_magnitude \<bar>q\<bar> of
             None \<Rightarrow> (if q < 0 then NegInf else PosInf)
           | Some v \<Rightarrow>
               (if v = 0 then (if q < 0 then NegZero else Finite 0)
                else Finite (if q < 0 then - v else v)))"

text \<open>The sign bit, and the absolute value of a finite double.\<close>

fun is_neg :: "pyfloat \<Rightarrow> bool" where
  "is_neg (Finite q) = (q < 0)"
| "is_neg NegZero = True"
| "is_neg PosInf = False"
| "is_neg NegInf = True"
| "is_neg NaN = False"

fun magnitude :: "pyfloat \<Rightarrow> rat option" where
  "magnitude (Finite q) = Some \<bar>q\<bar>"
| "magnitude NegZero = Some 0"
| "magnitude PosInf = None"
| "magnitude NegInf = None"
| "magnitude NaN = None"

definition signed_zero :: "bool \<Rightarrow> pyfloat" where
  "signed_zero neg = (if neg then NegZero else Finite 0)"

definition signed_inf :: "bool \<Rightarrow> pyfloat" where
  "signed_inf neg = (if neg then NegInf else PosInf)"

definition float_is_zero :: "pyfloat \<Rightarrow> bool" where
  "float_is_zero x = (x = Finite 0 \<or> x = NegZero)"

text \<open>
  The arithmetic of IEEE 754: the exact result, rounded; signed zeros, infinities and
  NaN as the standard has them. None of these operators raises.
\<close>

fun float_neg :: "pyfloat \<Rightarrow> pyfloat" where
  "float_neg (Finite q) = (if q = 0 then NegZero else Finite (- q))"
| "float_neg NegZero = Finite 0"
| "float_neg PosInf = NegInf"
| "float_neg NegInf = PosInf"
| "float_neg NaN = NaN"

fun float_add :: "pyfloat \<Rightarrow> pyfloat \<Rightarrow> pyfloat" where
  "float_add NaN y = NaN"
| "float_add x NaN = NaN"
| "float_add PosInf NegInf = NaN"
| "float_add NegInf PosInf = NaN"
| "float_add PosInf y = PosInf"
| "float_add NegInf y = NegInf"
| "float_add x PosInf = PosInf"
| "float_add x NegInf = NegInf"
| "float_add NegZero y = y"
| "float_add x NegZero = x"
| "float_add (Finite a) (Finite b) = round64 (a + b)"

definition float_sub :: "pyfloat \<Rightarrow> pyfloat \<Rightarrow> pyfloat" where
  "float_sub x y = float_add x (float_neg y)"

definition float_mul :: "pyfloat \<Rightarrow> pyfloat \<Rightarrow> pyfloat" where
  "float_mul x y =
     (if x = NaN \<or> y = NaN then NaN
      else case (magnitude x, magnitude y) of
             (Some a, Some b) \<Rightarrow>
               (if a * b = 0 then signed_zero (is_neg x \<noteq> is_neg y)
                else round64 (if is_neg x \<noteq> is_neg y then - (a * b) else a * b))
           | (None, Some b) \<Rightarrow> (if b = 0 then NaN else signed_inf (is_neg x \<noteq> is_neg y))
           | (Some a, None) \<Rightarrow> (if a = 0 then NaN else signed_inf (is_neg x \<noteq> is_neg y))
           | (None, None) \<Rightarrow> signed_inf (is_neg x \<noteq> is_neg y))"

definition float_div :: "pyfloat \<Rightarrow> pyfloat \<Rightarrow> pyfloat" where
  "float_div x y =
     (if x = NaN \<or> y = NaN then NaN
      else case (magnitude x, magnitude y) of
             (Some a, Some b) \<Rightarrow>
               (if b = 0 then (if a = 0 then NaN else signed_inf (is_neg x \<noteq> is_neg y))
                else if a = 0 then signed_zero (is_neg x \<noteq> is_neg y)
                else round64 (if is_neg x \<noteq> is_neg y then - (a / b) else a / b))
           | (None, Some b) \<Rightarrow> signed_inf (is_neg x \<noteq> is_neg y)
           | (Some a, None) \<Rightarrow> signed_zero (is_neg x \<noteq> is_neg y)
           | (None, None) \<Rightarrow> NaN)"

text \<open>
  Comparisons: minus infinity, the finite numbers (both zeros equal), plus infinity, in
  this order; NaN compares false with everything, itself included.
\<close>

fun float_rank :: "pyfloat \<Rightarrow> (int \<times> rat) option" where
  "float_rank (Finite q) = Some (0, q)"
| "float_rank NegZero = Some (0, 0)"
| "float_rank PosInf = Some (1, 0)"
| "float_rank NegInf = Some (- 1, 0)"
| "float_rank NaN = None"

definition rank_less :: "(int \<times> rat) option \<Rightarrow> (int \<times> rat) option \<Rightarrow> bool" where
  "rank_less r s =
     (case (r, s) of
        (Some (c, q), Some (c', q')) \<Rightarrow> c < c' \<or> (c = c' \<and> q < q')
      | _ \<Rightarrow> False)"

definition rank_eq :: "(int \<times> rat) option \<Rightarrow> (int \<times> rat) option \<Rightarrow> bool" where
  "rank_eq r s = (case (r, s) of (Some a, Some b) \<Rightarrow> a = b | _ \<Rightarrow> False)"

definition float_lt :: "pyfloat \<Rightarrow> pyfloat \<Rightarrow> bool" where
  "float_lt x y = rank_less (float_rank x) (float_rank y)"

definition float_eq :: "pyfloat \<Rightarrow> pyfloat \<Rightarrow> bool" where
  "float_eq x y = rank_eq (float_rank x) (float_rank y)"

text \<open>
  \<^verbatim>\<open>//\<close> on floats, as CPython computes it (\<^verbatim>\<open>_float_div_mod\<close>): from the exact
  \<^verbatim>\<open>fmod\<close>, the rounded quotient of the difference, corrected by one where the signs
  differ, and its floor. The divisor is not zero.
\<close>

definition float_fmod :: "pyfloat \<Rightarrow> pyfloat \<Rightarrow> pyfloat" where
  "float_fmod x y =
     (if x = NaN \<or> y = NaN then NaN
      else case (magnitude x, magnitude y) of
             (None, _) \<Rightarrow> NaN
           | (Some a, None) \<Rightarrow> x
           | (Some a, Some b) \<Rightarrow>
               (if b = 0 then NaN
                else let r = a - of_int \<lfloor>a / b\<rfloor> * b
                     in if r = 0 then signed_zero (is_neg x)
                        else Finite (if is_neg x then - r else r)))"

fun float_floor :: "pyfloat \<Rightarrow> pyfloat" where
  "float_floor (Finite q) = Finite (of_int \<lfloor>q\<rfloor>)"
| "float_floor x = x"

definition float_floordiv :: "pyfloat \<Rightarrow> pyfloat \<Rightarrow> pyfloat" where
  "float_floordiv vx wx =
     (let md = float_fmod vx wx;
          dv = float_div (float_sub vx md) wx;
          dv = (if \<not> float_is_zero md \<and>
                   (float_lt wx (Finite 0) \<noteq> float_lt md (Finite 0))
                then float_sub dv (Finite 1) else dv)
      in if \<not> float_is_zero dv
         then let floordiv = float_floor dv
              in if float_lt (Finite (1 / 2)) (float_sub dv floordiv)
                 then float_add floordiv (Finite 1) else floordiv
         else signed_zero (is_neg (float_div vx wx)))"

text \<open>
  An int converted to a float is rounded; beyond the range of doubles the host raises
  OverflowError (\<open>None\<close>). \<^verbatim>\<open>/\<close> on two ints rounds the exact quotient.
\<close>

definition float_of_int :: "int \<Rightarrow> pyfloat option" where
  "float_of_int i =
     (case round64 (of_int i) of PosInf \<Rightarrow> None | NegInf \<Rightarrow> None | x \<Rightarrow> Some x)"

definition int_truediv :: "int \<Rightarrow> int \<Rightarrow> pyfloat option" where
  "int_truediv i j =
     (if i = 0 then Some (signed_zero (j < 0))
      else case round64 (of_int i / of_int j) of
             PosInf \<Rightarrow> None | NegInf \<Rightarrow> None | x \<Rightarrow> Some x)"

definition is_double :: "pyfloat \<Rightarrow> bool" where
  "is_double x = (case x of Finite q \<Rightarrow> round64 q = Finite q | _ \<Rightarrow> True)"

subsection \<open>Host values, errors, nodes\<close>

text \<open>
  The host (Python) values that travel beside a type tag: \<^verbatim>\<open>None\<close>, an unbounded
  integer, a float, a string, a boolean.
\<close>

datatype val = PyNone | PyInt int | PyFloat pyfloat | PyStr string | PyBool bool

text \<open>
  The three exception classes of \<^verbatim>\<open>stimpl.errors\<close> that the evaluator raises, and
  \<open>HostError\<close> for an exception of the host language itself (Python's TypeError,
  ZeroDivisionError or OverflowError of an operator applied to operands it does not
  accept), which unwinds the evaluator in the same way.
\<close>

datatype error = InterpTypeError | InterpSyntaxError | InterpMathError | HostError

text \<open>
  Modelled from the spec: the node kinds of \<^verbatim>\<open>stimpl.expression\<close> (not part of the
  sources at hand), with the fields the evaluator reads. \<open>Assign\<close> holds the
  \<^verbatim>\<open>variable_name\<close> of its Variable node, the only field of it that is read.
  \<open>Not_e\<close> and \<open>If_e\<close> are the nodes \<^verbatim>\<open>Not\<close> and \<^verbatim>\<open>If\<close>. The set is
  closed, so the final \<^verbatim>\<open>case _\<close> of the evaluator, which raises the syntax-class
  error on any other object, has no counterpart here.
\<close>

datatype expr =
    Ren
  | IntLiteral int
  | FloatingPointLiteral pyfloat
  | StringLiteral string
  | BooleanLiteral bool
  | Print expr
  | Sequence "expr list"
  | Program "expr list"
  | Variable string
  | Assign string expr
  | Add expr expr
  | Subtract expr expr
  | Multiply expr expr
  | Divide expr expr
  | And expr expr
  | Or expr expr
  | Not_e expr
  | If_e expr expr expr
  | Lt expr expr
  | Lte expr expr
  | Gt expr expr
  | Gte expr expr
  | Eq expr expr
  | Ne expr expr
  | While expr expr

subsection \<open>Interpreter state\<close>

text \<open>
  \<^verbatim>\<open>class State\<close>: a frame holds a name, the pair (value, type) and the next state;
  \<^verbatim>\<open>EmptyState\<close> ends the chain. No method assigns to a field of an existing
  object, so the chain is an immutable value.
\<close>

datatype State = EmptyState | State string val stype State

definition set_value :: "State \<Rightarrow> string \<Rightarrow> val \<Rightarrow> stype \<Rightarrow> State" where
  "set_value self variable_name variable_value variable_type =
     State variable_name variable_value variable_type self"

text \<open>
  \<^verbatim>\<open>get_value\<close>: the name of this frame, else the next state. The test
  \<^verbatim>\<open>if self.next_state:\<close> is true of every State object (the class defines neither
  \<^verbatim>\<open>__bool__\<close> nor \<^verbatim>\<open>__len__\<close>), so the search ends in
  \<^verbatim>\<open>EmptyState.get_value\<close>, which returns None.
\<close>

fun get_value :: "State \<Rightarrow> string \<Rightarrow> (val \<times> stype) option" where
  "get_value EmptyState variable_name = None"
| "get_value (State name v t next_state) variable_name =
     (if name = variable_name then Some (v, t) else get_value next_state variable_name)"

fun next_state :: "State \<Rightarrow> State option" where
  "next_state EmptyState = None"
| "next_state (State name v t nxt) = Some nxt"

subsection \<open>Host operators\<close>

text \<open>
  Python's numbers: a bool is an int (False is 0, True is 1), and an int meeting a
  float in arithmetic is converted to it. Comparisons between an int and a float are
  exact.
\<close>

datatype num = NInt int | NFloat pyfloat

fun as_num :: "val \<Rightarrow> num option" where
  "as_num (PyInt i) = Some (NInt i)"
| "as_num (PyBool b) = Some (NInt (if b then 1 else 0))"
| "as_num (PyFloat x) = Some (NFloat x)"
| "as_num PyNone = None"
| "as_num (PyStr s) = None"

fun to_float :: "num \<Rightarrow> pyfloat option" where
  "to_float (NInt i) = float_of_int i"
| "to_float (NFloat x) = Some x"

fun num_rank :: "num \<Rightarrow> (int \<times> rat) option" where
  "num_rank (NInt i) = Some (0, of_int i)"
| "num_rank (NFloat x) = float_rank x"

text \<open>Truth value of a host value, as \<^verbatim>\<open>if\<close>, \<^verbatim>\<open>while\<close>, \<^verbatim>\<open>and\<close>, \<^verbatim>\<open>or\<close>, \<^verbatim>\<open>not\<close> take it.\<close>

fun py_truthy :: "val \<Rightarrow> bool" where
  "py_truthy PyNone = False"
| "py_truthy (PyInt i) = (i \<noteq> 0)"
| "py_truthy (PyFloat x) = (\<not> float_is_zero x)"
| "py_truthy (PyStr s) = (s \<noteq> [])"
| "py_truthy (PyBool b) = b"

text \<open>
  An arithmetic operator on two numbers; \<open>None\<close> is the host's TypeError, or its
  OverflowError when an int does not fit a float.
\<close>

definition arith :: "(int \<Rightarrow> int \<Rightarrow> int) \<Rightarrow> (pyfloat \<Rightarrow> pyfloat \<Rightarrow> pyfloat) \<Rightarrow> val \<Rightarrow> val \<Rightarrow> val option" where
  "arith fi ff a b =
     (case (as_num a, as_num b) of
        (Some (NInt i), Some (NInt j)) \<Rightarrow> Some (PyInt (fi i j))
      | (Some x, Some y) \<Rightarrow>
          (case (to_float x, to_float y) of
             (Some u, Some v) \<Rightarrow> Some (PyFloat (ff u v))
           | _ \<Rightarrow> None)
      | _ \<Rightarrow> None)"

fun str_repeat :: "string \<Rightarrow> val \<Rightarrow> val option" where
  "str_repeat s (PyInt k) = Some (PyStr (concat (replicate (nat k) s)))"
| "str_repeat s (PyBool b) = Some (PyStr (if b then s else []))"
| "str_repeat s _ = None"

fun py_add :: "val \<Rightarrow> val \<Rightarrow> val option" where
  "py_add (PyStr s) (PyStr u) = Some (PyStr (s @ u))"
| "py_add a b = arith (+) float_add a b"

definition py_sub :: "val \<Rightarrow> val \<Rightarrow> val option" where
  "py_sub a b = arith (-) float_sub a b"

fun py_mul :: "val \<Rightarrow> val \<Rightarrow> val option" where
  "py_mul (PyStr s) b = str_repeat s b"
| "py_mul a (PyStr s) = str_repeat s a"
| "py_mul a b = arith (*) float_mul a b"

text \<open>
  \<^verbatim>\<open>right_result == 0\<close>: true of the numbers equal to zero: the int 0, both float
  zeros, and False.
\<close>

definition py_eq_zero :: "val \<Rightarrow> bool" where
  "py_eq_zero v =
     (case as_num v of Some x \<Rightarrow> rank_eq (num_rank x) (Some (0, 0)) | None \<Rightarrow> False)"

text \<open>
  \<^verbatim>\<open>//\<close> and \<^verbatim>\<open>/\<close>. Integer \<^verbatim>\<open>//\<close> rounds towards minus infinity, as \<open>div\<close> on
  \<open>int\<close> does. A zero divisor is the host's ZeroDivisionError.
\<close>

definition py_floordiv :: "val \<Rightarrow> val \<Rightarrow> val option" where
  "py_floordiv a b =
     (if py_eq_zero b then None
      else arith (\<lambda>i j. i div j) float_floordiv a b)"

definition py_truediv :: "val \<Rightarrow> val \<Rightarrow> val option" where
  "py_truediv a b =
     (case (as_num a, as_num b) of
        (Some (NInt i), Some (NInt j)) \<Rightarrow>
          (if j = 0 then None else map_option PyFloat (int_truediv i j))
      | (Some x, Some y) \<Rightarrow>
          (case (to_float x, to_float y) of
             (Some u, Some v) \<Rightarrow>
               (if float_is_zero v then None else Some (PyFloat (float_div u v)))
           | _ \<Rightarrow> None)
      | _ \<Rightarrow> None)"

text \<open>Strings are ordered lexicographically by code point.\<close>

fun str_lt :: "string \<Rightarrow> string \<Rightarrow> bool" where
  "str_lt [] [] = False"
| "str_lt [] (y # ys) = True"
| "str_lt (x # xs) [] = False"
| "str_lt (x # xs) (y # ys) =
     ((of_char x :: nat) < of_char y \<or> (x = y \<and> str_lt xs ys))"

text \<open>\<^verbatim>\<open><\<close>: numbers with numbers, strings with strings; \<open>None\<close> is the host's TypeError.\<close>

fun py_lt :: "val \<Rightarrow> val \<Rightarrow> bool option" where
  "py_lt (PyStr s) (PyStr u) = Some (str_lt s u)"
| "py_lt a b =
     (case (as_num a, as_num b) of
        (Some x, Some y) \<Rightarrow> Some (rank_less (num_rank x) (num_rank y))
      | _ \<Rightarrow> None)"

text \<open>\<^verbatim>\<open>==\<close> is defined on every pair of values.\<close>

fun py_eq :: "val \<Rightarrow> val \<Rightarrow> bool" where
  "py_eq PyNone PyNone = True"
| "py_eq (PyStr s) (PyStr u) = (s = u)"
| "py_eq a b =
     (case (as_num a, as_num b) of
        (Some x, Some y) \<Rightarrow> rank_eq (num_rank x) (num_rank y)
      | _ \<Rightarrow> False)"

definition py_le :: "val \<Rightarrow> val \<Rightarrow> bool option" where
  "py_le a b = (case py_lt a b of None \<Rightarrow> None | Some r \<Rightarrow> Some (r \<or> py_eq a b))"

definition py_gt :: "val \<Rightarrow> val \<Rightarrow> bool option" where
  "py_gt a b = py_lt b a"

definition py_ge :: "val \<Rightarrow> val \<Rightarrow> bool option" where
  "py_ge a b = py_le b a"

text \<open>\<^verbatim>\<open>a and b\<close> and \<^verbatim>\<open>a or b\<close> return one of their operands.\<close>

definition py_and :: "val \<Rightarrow> val \<Rightarrow> val" where
  "py_and a b = (if py_truthy a then b else a)"

definition py_or :: "val \<Rightarrow> val \<Rightarrow> val" where
  "py_or a b = (if py_truthy a then a else b)"

subsection \<open>Outcomes of an evaluation\<close>

text \<open>
  What \<^verbatim>\<open>print\<close> writes: the token \<^verbatim>\<open>Unit\<close>, or the text of a host value
  (\<^verbatim>\<open>f"{printable_value}"\<close>), kept symbolic.
\<close>

datatype printed = PrintedUnit | PrintedValue val

type_synonym stdout = "printed list"

text \<open>
  An evaluation started with the lines \<open>out\<close> already written either does not finish
  within the given number of loop iterations (\<open>None\<close>), or raises an error, or returns;
  in both cases the lines written so far stay written.
\<close>

type_synonym 'a outcome = "((error + 'a) \<times> stdout) option"

definition raise :: "error \<Rightarrow> stdout \<Rightarrow> 'a outcome" where
  "raise e out = Some (Inl e, out)"

definition ret :: "'a \<Rightarrow> stdout \<Rightarrow> 'a outcome" where
  "ret x out = Some (Inr x, out)"

text \<open>Unpacking the result of a call: an exception of the callee unwinds the caller.\<close>

definition and_then :: "'a outcome \<Rightarrow> ('a \<Rightarrow> stdout \<Rightarrow> 'b outcome) \<Rightarrow> 'b outcome" where
  "and_then r k =
     (case r of
        None \<Rightarrow> None
      | Some (Inl e, out) \<Rightarrow> Some (Inl e, out)
      | Some (Inr x, out) \<Rightarrow> k x out)"

text \<open>The result of a host operator, whose own exception unwinds the evaluator too.\<close>

definition host :: "'a option \<Rightarrow> ('a \<Rightarrow> 'b outcome) \<Rightarrow> stdout \<Rightarrow> 'b outcome" where
  "host r k out = (case r of None \<Rightarrow> raise HostError out | Some x \<Rightarrow> k x)"

subsection \<open>Main evaluation logic\<close>

text \<open>
  \<^verbatim>\<open>evaluate(expression, state)\<close>, case by case in the order of the source. The
  recursion is on the expression; the \<^verbatim>\<open>while\<close> statement of the While case is
  \<open>while_loop\<close>, over the variables \<^verbatim>\<open>result\<close>, \<^verbatim>\<open>cond_type\<close> and
  \<^verbatim>\<open>new_state\<close> of the source. The first argument bounds the iterations of a loop:
  every iteration takes one unit, its body and its condition are evaluated under what
  is left, and an evaluation that would need more is \<open>None\<close>. No other case looks
  at the bound.
\<close>

fun evaluate :: "nat \<Rightarrow> expr \<Rightarrow> State \<Rightarrow> stdout \<Rightarrow> (val \<times> stype \<times> State) outcome"
  and while_loop :: "nat \<Rightarrow> expr \<Rightarrow> expr \<Rightarrow> val \<Rightarrow> stype \<Rightarrow> State \<Rightarrow> stdout
                       \<Rightarrow> (val \<times> stype \<times> State) outcome"
where
  "evaluate n Ren st out = ret (PyNone, Unit, st) out"
| "evaluate n (IntLiteral l) st out = ret (PyInt l, Integer, st) out"
| "evaluate n (FloatingPointLiteral l) st out = ret (PyFloat l, FloatingPoint, st) out"
| "evaluate n (StringLiteral l) st out = ret (PyStr l, String, st) out"
| "evaluate n (BooleanLiteral l) st out = ret (PyBool l, Boolean, st) out"
| "evaluate n (Print to_print) st out =
     and_then (evaluate n to_print st out) (\<lambda>(printable_value, printable_type, new_state) out1.
       ret (printable_value, printable_type, new_state)
         (out1 @ [if printable_type = Unit then PrintedUnit else PrintedValue printable_value]))"
| "evaluate n (Sequence []) st out = evaluate n Ren st out"
| "evaluate n (Sequence (e # es)) st out =
     and_then (evaluate n e st out) (\<lambda>(value_result, value_type, new_state) out1.
       if length (e # es) = 1 then ret (value_result, value_type, new_state) out1
       else evaluate n (Sequence es) new_state out1)"
| "evaluate n (Program []) st out = evaluate n Ren st out"
| "evaluate n (Program (e # es)) st out =
     and_then (evaluate n e st out) (\<lambda>(value_result, value_type, new_state) out1.
       if length (e # es) = 1 then ret (value_result, value_type, new_state) out1
       else evaluate n (Sequence es) new_state out1)"
| "evaluate n (Variable variable_name) st out =
     (case get_value st variable_name of
        None \<Rightarrow> raise InterpSyntaxError out
      | Some (variable_value, variable_type) \<Rightarrow> ret (variable_value, variable_type, st) out)"
| "evaluate n (Assign variable_name value_expr) st out =
     and_then (evaluate n value_expr st out) (\<lambda>(value_result, value_type, new_state) out1.
       let variable_from_state = get_value new_state variable_name;
           variable_type = (case variable_from_state of
                              Some (_, t) \<Rightarrow> Some t
                            | None \<Rightarrow> None)
       in if Some value_type \<noteq> variable_type \<and> variable_type \<noteq> None
          then raise InterpTypeError out1
          else ret (value_result, value_type,
                    set_value new_state variable_name value_result value_type) out1)"
| "evaluate n (Add left right) st out =
     and_then (evaluate n left st out) (\<lambda>(left_result, left_type, new_state) out1.
     and_then (evaluate n right new_state out1) (\<lambda>(right_result, right_type, new_state) out2.
       if left_type \<noteq> right_type then raise InterpTypeError out2
       else if left_type = Integer \<or> left_type = String \<or> left_type = FloatingPoint
            then host (py_add left_result right_result) (\<lambda>result. ret (result, left_type, new_state) out2) out2
            else raise InterpTypeError out2))"
| "evaluate n (Subtract left right) st out =
     and_then (evaluate n left st out) (\<lambda>(left_result, left_type, new_state) out1.
     and_then (evaluate n right new_state out1) (\<lambda>(right_result, right_type, new_state) out2.
       if left_type \<noteq> right_type then raise InterpTypeError out2
       else if left_type = Integer \<or> left_type = FloatingPoint
            then host (py_sub left_result right_result) (\<lambda>result. ret (result, left_type, new_state) out2) out2
            else raise InterpTypeError out2))"
| "evaluate n (Multiply left right) st out =
     and_then (evaluate n left st out) (\<lambda>(left_result, left_type, new_state) out1.
     and_then (evaluate n right new_state out1) (\<lambda>(right_result, right_type, new_state) out2.
       if left_type \<noteq> right_type then raise InterpTypeError out2
       else if left_type = Integer \<or> left_type = FloatingPoint
            then host (py_mul left_result right_result) (\<lambda>result. ret (result, left_type, new_state) out2) out2
            else raise InterpTypeError out2))"
| "evaluate n (Divide left right) st out =
     and_then (evaluate n left st out) (\<lambda>(left_result, left_type, new_state) out1.
     and_then (evaluate n right new_state out1) (\<lambda>(right_result, right_type, new_state) out2.
       if left_type \<noteq> right_type then raise InterpTypeError out2
       else if py_eq_zero right_result then raise InterpMathError out2
       else if left_type = Integer
            then host (py_floordiv left_result right_result) (\<lambda>result. ret (result, left_type, new_state) out2) out2
       else if left_type = FloatingPoint
            then host (py_truediv left_result right_result) (\<lambda>result. ret (result, left_type, new_state) out2) out2
       else raise InterpTypeError out2))"
| "evaluate n (And left right) st out =
     and_then (evaluate n left st out) (\<lambda>(left_result, left_type, new_state) out1.
     and_then (evaluate n right new_state out1) (\<lambda>(right_result, right_type, new_state) out2.
       if left_type \<noteq> right_type then raise InterpTypeError out2
       else if left_type = Boolean
            then ret (py_and left_result right_result, left_type, new_state) out2
            else raise InterpTypeError out2))"
| "evaluate n (Or left right) st out =
     and_then (evaluate n left st out) (\<lambda>(left_result, left_type, new_state) out1.
     and_then (evaluate n right new_state out1) (\<lambda>(right_result, right_type, new_state) out2.
       if left_type \<noteq> right_type then raise InterpTypeError out2
       else if left_type = Boolean
            then ret (py_or left_result right_result, left_type, new_state) out2
            else raise InterpTypeError out2))"
| "evaluate n (Not_e e) st out =
     and_then (evaluate n e st out) (\<lambda>(expr_result, expr_type, new_state) out1.
       if expr_type = Boolean
       then ret (PyBool (\<not> py_truthy expr_result), expr_type, new_state) out1
       else raise InterpTypeError out1)"
| "evaluate n (If_e condition true false) st out =
     and_then (evaluate n condition st out) (\<lambda>(cond_result, cond_type, new_state) out1.
       if cond_type = Boolean
       then (if py_truthy cond_result then evaluate n true new_state out1
             else evaluate n false new_state out1)
       else raise InterpTypeError out1)"
| "evaluate n (Lt left right) st out =
     and_then (evaluate n left st out) (\<lambda>(left_result, left_type, new_state) out1.
     and_then (evaluate n right new_state out1) (\<lambda>(right_result, right_type, new_state) out2.
       if left_type \<noteq> right_type then raise InterpTypeError out2
       else if left_type = Integer \<or> left_type = Boolean \<or> left_type = String \<or> left_type = FloatingPoint
            then host (py_lt left_result right_result) (\<lambda>result. ret (PyBool result, Boolean, new_state) out2) out2
            else if left_type = Unit then ret (PyBool False, Boolean, new_state) out2
            else raise InterpTypeError out2))"
| "evaluate n (Lte left right) st out =
     and_then (evaluate n left st out) (\<lambda>(left_result, left_type, new_state) out1.
     and_then (evaluate n right new_state out1) (\<lambda>(right_result, right_type, new_state) out2.
       if left_type \<noteq> right_type then raise InterpTypeError out2
       else if left_type = Integer \<or> left_type = Boolean \<or> left_type = String \<or> left_type = FloatingPoint
            then host (py_le left_result right_result) (\<lambda>result. ret (PyBool result, Boolean, new_state) out2) out2
            else if left_type = Unit then ret (PyBool True, Boolean, new_state) out2
            else raise InterpTypeError out2))"
| "evaluate n (Gt left right) st out =
     and_then (evaluate n left st out) (\<lambda>(left_result, left_type, new_state) out1.
     and_then (evaluate n right new_state out1) (\<lambda>(right_result, right_type, new_state) out2.
       if left_type \<noteq> right_type then raise InterpTypeError out2
       else if left_type = Integer \<or> left_type = Boolean \<or> left_type = String \<or> left_type = FloatingPoint
            then host (py_gt left_result right_result) (\<lambda>result. ret (PyBool result, Boolean, new_state) out2) out2
            else if left_type = Unit then ret (PyBool False, Boolean, new_state) out2
            else raise InterpTypeError out2))"
| "evaluate n (Gte left right) st out =
     and_then (evaluate n left st out) (\<lambda>(left_result, left_type, new_state) out1.
     and_then (evaluate n right new_state out1) (\<lambda>(right_result, right_type, new_state) out2.
       if left_type \<noteq> right_type then raise InterpTypeError out2
       else if left_type = Integer \<or> left_type = Boolean \<or> left_type = String \<or> left_type = FloatingPoint
            then host (py_ge left_result right_result) (\<lambda>result. ret (PyBool result, Boolean, new_state) out2) out2
            else if left_type = Unit then ret (PyBool True, Boolean, new_state) out2
            else raise InterpTypeError out2))"
| "evaluate n (Eq left right) st out =
     and_then (evaluate n left st out) (\<lambda>(left_result, left_type, new_state) out1.
     and_then (evaluate n right new_state out1) (\<lambda>(right_result, right_type, new_state) out2.
       if left_type \<noteq> right_type then raise InterpTypeError out2
       else if left_type = Integer \<or> left_type = Boolean \<or> left_type = String \<or> left_type = FloatingPoint
            then host (Some (py_eq left_result right_result)) (\<lambda>result. ret (PyBool result, Boolean, new_state) out2) out2
            else if left_type = Unit then ret (PyBool True, Boolean, new_state) out2
            else raise InterpTypeError out2))"
| "evaluate n (Ne left right) st out =
     and_then (evaluate n left st out) (\<lambda>(left_result, left_type, new_state) out1.
     and_then (evaluate n right new_state out1) (\<lambda>(right_result, right_type, new_state) out2.
       if left_type \<noteq> right_type then raise InterpTypeError out2
       else if left_type = Integer \<or> left_type = Boolean \<or> left_type = String \<or> left_type = FloatingPoint
            then host (Some (\<not> py_eq left_result right_result)) (\<lambda>result. ret (PyBool result, Boolean, new_state) out2) out2
            else if left_type = Unit then ret (PyBool False, Boolean, new_state) out2
            else raise InterpTypeError out2))"
| "evaluate n (While condition body) st out =
     and_then (evaluate n condition st out) (\<lambda>(cond_result, cond_type, new_state) out1.
       if cond_type = Boolean
       then while_loop n condition body cond_result cond_type new_state out1
       else raise InterpTypeError out1)"
| "while_loop 0 condition body result cond_type st out =
     (if py_truthy result then None
      else ret (result, cond_type, st) out)"
| "while_loop (Suc k) condition body result cond_type st out =
     (if py_truthy result
      then and_then (evaluate k body st out) (\<lambda>(body_result, body_type, new_state) out1.
           and_then (evaluate k condition new_state out1) (\<lambda>(cond_result, cond_type, new_state) out2.
             if cond_type = Boolean
             then while_loop k condition body cond_result cond_type new_state out2
             else raise InterpTypeError out2))
      else ret (result, cond_type, st) out)"

text \<open>
  \<^verbatim>\<open>run_stimpl\<close> with \<^verbatim>\<open>debug=False\<close>: the program against the empty state,
  nothing printed yet.
\<close>

definition run_stimpl :: "nat \<Rightarrow> expr \<Rightarrow> (val \<times> stype \<times> State) outcome" where
  "run_stimpl n program = evaluate n program EmptyState []"

subsection \<open>Well-tagged values and states\<close>

text \<open>
  A value is well tagged when its host representation is the one its type tag stands
  for, as the literal nodes pair them; a state is well tagged when every frame is. The
  empty state of \<open>run_stimpl\<close> is, and evaluation keeps it so.
\<close>

fun wt_val :: "val \<Rightarrow> stype \<Rightarrow> bool" where
  "wt_val PyNone t = (t = Unit)"
| "wt_val (PyInt i) t = (t = Integer)"
| "wt_val (PyFloat x) t = (t = FloatingPoint)"
| "wt_val (PyStr s) t = (t = String)"
| "wt_val (PyBool b) t = (t = Boolean)"

fun wt_state :: "State \<Rightarrow> bool" where
  "wt_state EmptyState = True"
| "wt_state (State name v t nxt) = (wt_val v t \<and> wt_state nxt)"

fun ok_result :: "error + val \<times> stype \<times> State \<Rightarrow> bool" where
  "ok_result (Inl e) = (e \<noteq> HostError)"
| "ok_result (Inr (v, t, st)) = (wt_val v t \<and> wt_state st)"

section \<open>Auxiliary facts\<close>

lemma and_then_simps [simp]:
  "and_then None k = None"
  "and_then (Some (Inl e, out)) k = Some (Inl e, out)"
  "and_then (Some (Inr x, out)) k = k x out"
  "and_then (raise e out) k = raise e out"
  "and_then (ret x out) k = k x out"
  by (simp_all add: and_then_def raise_def ret_def)

lemma and_then_Some_iff:
  "and_then r k = Some z \<longleftrightarrow>
     (\<exists>e out. r = Some (Inl e, out) \<and> z = (Inl e, out)) \<or>
     (\<exists>x out. r = Some (Inr x, out) \<and> k x out = Some z)"
  by (auto simp: and_then_def split: option.splits sum.splits prod.splits)

lemma wt_val_tag:
  "wt_val v Unit \<longleftrightarrow> v = PyNone"
  "wt_val v Integer \<longleftrightarrow> (\<exists>i. v = PyInt i)"
  "wt_val v FloatingPoint \<longleftrightarrow> (\<exists>x. v = PyFloat x)"
  "wt_val v String \<longleftrightarrow> (\<exists>s. v = PyStr s)"
  "wt_val v Boolean \<longleftrightarrow> (\<exists>b. v = PyBool b)"
  by (cases v; auto)+

lemma py_eq_zero_cases:
  "py_eq_zero (PyInt i) \<longleftrightarrow> i = 0"
  "py_eq_zero (PyFloat x) \<longleftrightarrow> float_is_zero x"
  "py_eq_zero (PyBool b) \<longleftrightarrow> \<not> b"
  "\<not> py_eq_zero PyNone"
  "\<not> py_eq_zero (PyStr s)"
  by (cases x; auto simp: py_eq_zero_def rank_eq_def float_is_zero_def)+

lemma get_value_wt: "wt_state st \<Longrightarrow> get_value st x = Some (v, t) \<Longrightarrow> wt_val v t"
  by (induction st) (auto split: if_splits)


lemma py_add_wt:
  "wt_val a t \<Longrightarrow> wt_val b t \<Longrightarrow> t = Integer \<or> t = String \<or> t = FloatingPoint \<Longrightarrow>
     \<exists>r. py_add a b = Some r \<and> wt_val r t"
  by (cases a; cases b; auto simp: arith_def)

lemma py_sub_wt:
  "wt_val a t \<Longrightarrow> wt_val b t \<Longrightarrow> t = Integer \<or> t = FloatingPoint \<Longrightarrow>
     \<exists>r. py_sub a b = Some r \<and> wt_val r t"
  by (cases a; cases b; auto simp: arith_def py_sub_def)

lemma py_mul_wt:
  "wt_val a t \<Longrightarrow> wt_val b t \<Longrightarrow> t = Integer \<or> t = FloatingPoint \<Longrightarrow>
     \<exists>r. py_mul a b = Some r \<and> wt_val r t"
  by (cases a; cases b; auto simp: arith_def)

lemma py_floordiv_wt:
  "wt_val a Integer \<Longrightarrow> wt_val b Integer \<Longrightarrow> \<not> py_eq_zero b \<Longrightarrow>
     \<exists>i j. a = PyInt i \<and> b = PyInt j \<and> j \<noteq> 0 \<and> py_floordiv a b = Some (PyInt (i div j))"
  by (cases a; cases b; auto simp: arith_def py_floordiv_def py_eq_zero_cases)

lemma py_truediv_wt:
  "wt_val a FloatingPoint \<Longrightarrow> wt_val b FloatingPoint \<Longrightarrow> \<not> py_eq_zero b \<Longrightarrow>
     \<exists>x y. a = PyFloat x \<and> b = PyFloat y \<and> \<not> float_is_zero y \<and>
       py_truediv a b = Some (PyFloat (float_div x y))"
  by (cases a; cases b; auto simp: py_truediv_def py_eq_zero_cases)

lemma py_lt_wt:
  "wt_val a t \<Longrightarrow> wt_val b t \<Longrightarrow>
   t = Integer \<or> t = Boolean \<or> t = String \<or> t = FloatingPoint \<Longrightarrow> \<exists>r. py_lt a b = Some r"
  by (cases a; cases b; auto)

lemma py_le_wt:
  "wt_val a t \<Longrightarrow> wt_val b t \<Longrightarrow>
   t = Integer \<or> t = Boolean \<or> t = String \<or> t = FloatingPoint \<Longrightarrow> \<exists>r. py_le a b = Some r"
  using py_lt_wt [of a t b] by (auto simp: py_le_def)

lemma py_gt_wt:
  "wt_val a t \<Longrightarrow> wt_val b t \<Longrightarrow>
   t = Integer \<or> t = Boolean \<or> t = String \<or> t = FloatingPoint \<Longrightarrow> \<exists>r. py_gt a b = Some r"
  using py_lt_wt [of b t a] by (auto simp: py_gt_def)

lemma py_ge_wt:
  "wt_val a t \<Longrightarrow> wt_val b t \<Longrightarrow>
   t = Integer \<or> t = Boolean \<or> t = String \<or> t = FloatingPoint \<Longrightarrow> \<exists>r. py_ge a b = Some r"
  using py_le_wt [of b t a] by (auto simp: py_ge_def)

lemma py_and_wt:
  "wt_val a Boolean \<Longrightarrow> wt_val b Boolean \<Longrightarrow>
     \<exists>p q. a = PyBool p \<and> b = PyBool q \<and> py_and a b = PyBool (p \<and> q)"
  by (cases a; cases b; auto simp: py_and_def)

lemma py_or_wt:
  "wt_val a Boolean \<Longrightarrow> wt_val b Boolean \<Longrightarrow>
     \<exists>p q. a = PyBool p \<and> b = PyBool q \<and> py_or a b = PyBool (p \<or> q)"
  by (cases a; cases b; auto simp: py_or_def)

lemma unop_wt:
  assumes IH: "\<forall>r out'. wt_state st \<longrightarrow> evaluate n e st out = Some (r, out') \<longrightarrow> ok_result r"
    and wt: "wt_state st"
    and ev: "and_then (evaluate n e st out) (\<lambda>(v, t, st1) out1. K v t st1 out1) = Some (res, out')"
    and K: "\<And>v t st1 out1. wt_val v t \<Longrightarrow> wt_state st1 \<Longrightarrow>
              K v t st1 out1 = Some (res, out') \<Longrightarrow> ok_result res"
  shows "ok_result res"
proof -
  from ev consider
      (err) e' where "evaluate n e st out = Some (Inl e', out')" "res = Inl e'"
    | (ok) v t st1 out1 where "evaluate n e st out = Some (Inr (v, t, st1), out1)"
        "K v t st1 out1 = Some (res, out')"
    by (auto simp: and_then_Some_iff)
  then show ?thesis
  proof cases
    case err
    with IH wt show ?thesis by blast
  next
    case ok
    from IH wt ok(1) have "ok_result (Inr (v, t, st1))" by blast
    then have "wt_val v t" "wt_state st1" by simp_all
    with K ok(2) show ?thesis by blast
  qed
qed

lemma binop_wt:
  assumes IH1: "\<forall>r out'. wt_state st \<longrightarrow> evaluate n l st out = Some (r, out') \<longrightarrow> ok_result r"
    and IH2: "\<And>st1 out1. \<forall>q out'. wt_state st1 \<longrightarrow> evaluate n r st1 out1 = Some (q, out') \<longrightarrow> ok_result q"
    and wt: "wt_state st"
    and ev: "and_then (evaluate n l st out) (\<lambda>(lv, lt, st1) out1.
             and_then (evaluate n r st1 out1) (\<lambda>(rv, rt, st2) out2.
               K lv lt rv rt st2 out2)) = Some (res, out')"
    and K: "\<And>lv lt rv rt st2 out2. wt_val lv lt \<Longrightarrow> wt_val rv rt \<Longrightarrow> wt_state st2 \<Longrightarrow>
              K lv lt rv rt st2 out2 = Some (res, out') \<Longrightarrow> ok_result res"
  shows "ok_result res"
proof -
  from ev consider
      (lerr) e where "evaluate n l st out = Some (Inl e, out')" "res = Inl e"
    | (lok) lv lt st1 out1 where "evaluate n l st out = Some (Inr (lv, lt, st1), out1)"
        "and_then (evaluate n r st1 out1) (\<lambda>(rv, rt, st2) out2. K lv lt rv rt st2 out2) = Some (res, out')"
    by (auto simp: and_then_Some_iff)
  then show ?thesis
  proof cases
    case lerr
    with IH1 wt show ?thesis by blast
  next
    case lok
    from IH1 wt lok(1) have l: "wt_val lv lt" "wt_state st1" by fastforce+
    from lok(2) consider
        (rerr) e where "evaluate n r st1 out1 = Some (Inl e, out')" "res = Inl e"
      | (rok) rv rt st2 out2 where "evaluate n r st1 out1 = Some (Inr (rv, rt, st2), out2)"
          "K lv lt rv rt st2 out2 = Some (res, out')"
      by (auto simp: and_then_Some_iff)
    then show ?thesis
    proof cases
      case rerr
      with IH2 [of st1 out1] l show ?thesis by blast
    next
      case rok
      from IH2 [of st1 out1] l rok(1) have "wt_val rv rt" "wt_state st2" by fastforce+
      with K l rok(2) show ?thesis by blast
    qed
  qed
qed

lemma evaluate_wt_aux:
  "\<forall>r out'. wt_state st \<longrightarrow> evaluate n e st out = Some (r, out') \<longrightarrow> ok_result r"
  "\<forall>r out'. wt_state st \<longrightarrow> wt_val result ct \<longrightarrow>
      while_loop n c b result ct st out = Some (r, out') \<longrightarrow> ok_result r"
proof (induction n e st out and n c b result ct st out rule: evaluate_while_loop.induct)
  case (1 n st out) show ?case by (simp add: ret_def)
next
  case (2 n l st out) show ?case by (simp add: ret_def)
next
  case (3 n l st out) show ?case by (simp add: ret_def)
next
  case (4 n l st out) show ?case by (simp add: ret_def)
next
  case (5 n l st out) show ?case by (simp add: ret_def)
next
  case (6 n to_print st out)
  then show ?case by (fastforce simp: and_then_Some_iff ret_def)
next
  case (7 n st out)
  then show ?case by simp
next
  case (8 n e es st out)
  show ?case
  proof (intro allI impI)
    fix r out' assume wt: "wt_state st" and ev: "evaluate n (Sequence (e # es)) st out = Some (r, out')"
    show "ok_result r"
    proof (rule unop_wt [OF "8.IH"(1) wt])
      show "and_then (evaluate n e st out) (\<lambda>(v, t, st1) out1. (if length (e # es) = 1 then ret (v, t, st1) out1 else evaluate n (Sequence es) st1 out1)) = Some (r, out')"
        using ev by simp
    next
      fix v t st1 out1
      assume a: "wt_val v t" "wt_state st1" "(if length (e # es) = 1 then ret (v, t, st1) out1 else evaluate n (Sequence es) st1 out1) = Some (r, out')"
      show "ok_result r"
      proof (cases "length (e # es) = 1")
        case True
        with a show ?thesis by (auto simp: ret_def)
      next
        case False
        from False have ne: "es \<noteq> []" by simp
        from "8.IH"(2) [OF False] a ne show ?thesis by simp blast
      qed
    qed
  qed
next
  case (9 n st out)
  then show ?case by simp
next
  case (10 n e es st out)
  show ?case
  proof (intro allI impI)
    fix r out' assume wt: "wt_state st" and ev: "evaluate n (Program (e # es)) st out = Some (r, out')"
    show "ok_result r"
    proof (rule unop_wt [OF "10.IH"(1) wt])
      show "and_then (evaluate n e st out) (\<lambda>(v, t, st1) out1. (if length (e # es) = 1 then ret (v, t, st1) out1 else evaluate n (Sequence es) st1 out1)) = Some (r, out')"
        using ev by simp
    next
      fix v t st1 out1
      assume a: "wt_val v t" "wt_state st1" "(if length (e # es) = 1 then ret (v, t, st1) out1 else evaluate n (Sequence es) st1 out1) = Some (r, out')"
      show "ok_result r"
      proof (cases "length (e # es) = 1")
        case True
        with a show ?thesis by (auto simp: ret_def)
      next
        case False
        from False have ne: "es \<noteq> []" by simp
        from "10.IH"(2) [OF False] a ne show ?thesis by simp blast
      qed
    qed
  qed
next
  case (11 n variable_name st out)
  then show ?case 
    by (auto simp: ret_def raise_def get_value_wt split: option.splits)
next
  case (12 n variable_name value_expr st out)
  then show ?case 
    by (auto simp: and_then_Some_iff ret_def raise_def set_value_def Let_def split: if_splits)
next
  case (13 n left right st out)
  show ?case
  proof (intro allI impI)
    fix r out' assume wt: "wt_state st" and ev: "evaluate n (Add left right) st out = Some (r, out')"
    show "ok_result r"
    proof (rule binop_wt [OF "13.IH"(1) "13.IH"(2) wt])
      show "and_then (evaluate n left st out) (\<lambda>(lv, lt, st1) out1.
             and_then (evaluate n right st1 out1) (\<lambda>(rv, rt, st2) out2.
               (if lt \<noteq> rt then raise InterpTypeError out2 else if lt = Integer \<or> lt = String \<or> lt = FloatingPoint then host (py_add lv rv) (\<lambda>result. ret (result, lt, st2) out2) out2 else raise InterpTypeError out2))) = Some (r, out')"
        using ev by simp
    next
      fix lv lt rv rt st2 out2
      assume "wt_val lv lt" "wt_val rv rt" "wt_state st2"
        "(if lt \<noteq> rt then raise InterpTypeError out2 else if lt = Integer \<or> lt = String \<or> lt = FloatingPoint then host (py_add lv rv) (\<lambda>result. ret (result, lt, st2) out2) out2 else raise InterpTypeError out2) = Some (r, out')"
      then show "ok_result r"
        using py_add_wt [of lv lt rv] by (auto simp: ret_def raise_def host_def split: if_splits)
    qed
  qed
next
  case (14 n left right st out)
  show ?case
  proof (intro allI impI)
    fix r out' assume wt: "wt_state st" and ev: "evaluate n (Subtract left right) st out = Some (r, out')"
    show "ok_result r"
    proof (rule binop_wt [OF "14.IH"(1) "14.IH"(2) wt])
      show "and_then (evaluate n left st out) (\<lambda>(lv, lt, st1) out1.
             and_then (evaluate n right st1 out1) (\<lambda>(rv, rt, st2) out2.
               (if lt \<noteq> rt then raise InterpTypeError out2 else if lt = Integer \<or> lt = FloatingPoint then host (py_sub lv rv) (\<lambda>result. ret (result, lt, st2) out2) out2 else raise InterpTypeError out2))) = Some (r, out')"
        using ev by simp
    next
      fix lv lt rv rt st2 out2
      assume "wt_val lv lt" "wt_val rv rt" "wt_state st2"
        "(if lt \<noteq> rt then raise InterpTypeError out2 else if lt = Integer \<or> lt = FloatingPoint then host (py_sub lv rv) (\<lambda>result. ret (result, lt, st2) out2) out2 else raise InterpTypeError out2) = Some (r, out')"
      then show "ok_result r"
        using py_sub_wt [of lv lt rv] by (auto simp: ret_def raise_def host_def split: if_splits)
    qed
  qed
next
  case (15 n left right st out)
  show ?case
  proof (intro allI impI)
    fix r out' assume wt: "wt_state st" and ev: "evaluate n (Multiply left right) st out = Some (r, out')"
    show "ok_result r"
    proof (rule binop_wt [OF "15.IH"(1) "15.IH"(2) wt])
      show "and_then (evaluate n left st out) (\<lambda>(lv, lt, st1) out1.
             and_then (evaluate n right st1 out1) (\<lambda>(rv, rt, st2) out2.
               (if lt \<noteq> rt then raise InterpTypeError out2 else if lt = Integer \<or> lt = FloatingPoint then host (py_mul lv rv) (\<lambda>result. ret (result, lt, st2) out2) out2 else raise InterpTypeError out2))) = Some (r, out')"
        using ev by simp
    next
      fix lv lt rv rt st2 out2
      assume "wt_val lv lt" "wt_val rv rt" "wt_state st2"
        "(if lt \<noteq> rt then raise InterpTypeError out2 else if lt = Integer \<or> lt = FloatingPoint then host (py_mul lv rv) (\<lambda>result. ret (result, lt, st2) out2) out2 else raise InterpTypeError out2) = Some (r, out')"
      then show "ok_result r"
        using py_mul_wt [of lv lt rv] by (auto simp: ret_def raise_def host_def split: if_splits)
    qed
  qed
next
  case (16 n left right st out)
  show ?case
  proof (intro allI impI)
    fix r out' assume wt: "wt_state st" and ev: "evaluate n (Divide left right) st out = Some (r, out')"
    show "ok_result r"
    proof (rule binop_wt [OF "16.IH"(1) "16.IH"(2) wt])
      show "and_then (evaluate n left st out) (\<lambda>(lv, lt, st1) out1.
             and_then (evaluate n right st1 out1) (\<lambda>(rv, rt, st2) out2.
               (if lt \<noteq> rt then raise InterpTypeError out2 else if py_eq_zero rv then raise InterpMathError out2 else if lt = Integer then host (py_floordiv lv rv) (\<lambda>result. ret (result, lt, st2) out2) out2 else if lt = FloatingPoint then host (py_truediv lv rv) (\<lambda>result. ret (result, lt, st2) out2) out2 else raise InterpTypeError out2))) = Some (r, out')"
        using ev by simp
    next
      fix lv lt rv rt st2 out2
      assume "wt_val lv lt" "wt_val rv rt" "wt_state st2"
        "(if lt \<noteq> rt then raise InterpTypeError out2 else if py_eq_zero rv then raise InterpMathError out2 else if lt = Integer then host (py_floordiv lv rv) (\<lambda>result. ret (result, lt, st2) out2) out2 else if lt = FloatingPoint then host (py_truediv lv rv) (\<lambda>result. ret (result, lt, st2) out2) out2 else raise InterpTypeError out2) = Some (r, out')"
      then show "ok_result r"
        using py_floordiv_wt [of lv rv] py_truediv_wt [of lv rv] by (auto simp: ret_def raise_def host_def split: if_splits)
    qed
  qed
next
  case (17 n left right st out)
  show ?case
  proof (intro allI impI)
    fix r out' assume wt: "wt_state st" and ev: "evaluate n (And left right) st out = Some (r, out')"
    show "ok_result r"
    proof (rule binop_wt [OF "17.IH"(1) "17.IH"(2) wt])
      show "and_then (evaluate n left st out) (\<lambda>(lv, lt, st1) out1.
             and_then (evaluate n right st1 out1) (\<lambda>(rv, rt, st2) out2.
               (if lt \<noteq> rt then raise InterpTypeError out2 else if lt = Boolean then ret (py_and lv rv, lt, st2) out2 else raise InterpTypeError out2))) = Some (r, out')"
        using ev by simp
    next
      fix lv lt rv rt st2 out2
      assume "wt_val lv lt" "wt_val rv rt" "wt_state st2"
        "(if lt \<noteq> rt then raise InterpTypeError out2 else if lt = Boolean then ret (py_and lv rv, lt, st2) out2 else raise InterpTypeError out2) = Some (r, out')"
      then show "ok_result r"
        using py_and_wt [of lv rv] by (auto simp: ret_def raise_def split: if_splits)
    qed
  qed
next
  case (18 n left right st out)
  show ?case
  proof (intro allI impI)
    fix r out' assume wt: "wt_state st" and ev: "evaluate n (Or left right) st out = Some (r, out')"
    show "ok_result r"
    proof (rule binop_wt [OF "18.IH"(1) "18.IH"(2) wt])
      show "and_then (evaluate n left st out) (\<lambda>(lv, lt, st1) out1.
             and_then (evaluate n right st1 out1) (\<lambda>(rv, rt, st2) out2.
               (if lt \<noteq> rt then raise InterpTypeError out2 else if lt = Boolean then ret (py_or lv rv, lt, st2) out2 else raise InterpTypeError out2))) = Some (r, out')"
        using ev by simp
    next
      fix lv lt rv rt st2 out2
      assume "wt_val lv lt" "wt_val rv rt" "wt_state st2"
        "(if lt \<noteq> rt then raise InterpTypeError out2 else if lt = Boolean then ret (py_or lv rv, lt, st2) out2 else raise InterpTypeError out2) = Some (r, out')"
      then show "ok_result r"
        using py_or_wt [of lv rv] by (auto simp: ret_def raise_def split: if_splits)
    qed
  qed
next
  case (19 n e st out)
  then show ?case
    by (auto simp: and_then_Some_iff ret_def raise_def split: if_splits)
next
  case (20 n condition true false st out)
  show ?case
  proof (intro allI impI)
    fix r out' assume wt: "wt_state st" and ev: "evaluate n (If_e condition true false) st out = Some (r, out')"
    show "ok_result r"
    proof (rule unop_wt [OF "20.IH"(1) wt])
      show "and_then (evaluate n condition st out) (\<lambda>(v, t, st1) out1. (if t = Boolean then (if py_truthy v then evaluate n true st1 out1 else evaluate n false st1 out1) else raise InterpTypeError out1)) = Some (r, out')"
        using ev by simp
    next
      fix v t st1 out1
      assume a: "wt_val v t" "wt_state st1" "(if t = Boolean then (if py_truthy v then evaluate n true st1 out1 else evaluate n false st1 out1) else raise InterpTypeError out1) = Some (r, out')"
      show "ok_result r"
      proof (cases "t = Boolean")
        case False
        with a show ?thesis by (auto simp: raise_def)
      next
        case True
        show ?thesis
        proof (cases "py_truthy v")
          case tr: True
          from "20.IH"(2) [OF True tr] a True tr show ?thesis by simp blast
        next
          case fl: False
          from "20.IH"(3) [OF True fl] a True fl show ?thesis by simp blast
        qed
      qed
    qed
  qed
next
  case (21 n left right st out)
  show ?case
  proof (intro allI impI)
    fix r out' assume wt: "wt_state st" and ev: "evaluate n (Lt left right) st out = Some (r, out')"
    show "ok_result r"
    proof (rule binop_wt [OF "21.IH"(1) "21.IH"(2) wt])
      show "and_then (evaluate n left st out) (\<lambda>(lv, lt, st1) out1.
             and_then (evaluate n right st1 out1) (\<lambda>(rv, rt, st2) out2.
               (if lt \<noteq> rt then raise InterpTypeError out2 else if lt = Integer \<or> lt = Boolean \<or> lt = String \<or> lt = FloatingPoint then host (py_lt lv rv) (\<lambda>result. ret (PyBool result, Boolean, st2) out2) out2 else if lt = Unit then ret (PyBool False, Boolean, st2) out2 else raise InterpTypeError out2))) = Some (r, out')"
        using ev by simp
    next
      fix lv lt rv rt st2 out2
      assume "wt_val lv lt" "wt_val rv rt" "wt_state st2"
        "(if lt \<noteq> rt then raise InterpTypeError out2 else if lt = Integer \<or> lt = Boolean \<or> lt = String \<or> lt = FloatingPoint then host (py_lt lv rv) (\<lambda>result. ret (PyBool result, Boolean, st2) out2) out2 else if lt = Unit then ret (PyBool False, Boolean, st2) out2 else raise InterpTypeError out2) = Some (r, out')"
      then show "ok_result r"
        using py_lt_wt [of lv lt rv] by (auto simp: ret_def raise_def host_def split: if_splits)
    qed
  qed
next
  case (22 n left right st out)
  show ?case
  proof (intro allI impI)
    fix r out' assume wt: "wt_state st" and ev: "evaluate n (Lte left right) st out = Some (r, out')"
    show "ok_result r"
    proof (rule binop_wt [OF "22.IH"(1) "22.IH"(2) wt])
      show "and_then (evaluate n left st out) (\<lambda>(lv, lt, st1) out1.
             and_then (evaluate n right st1 out1) (\<lambda>(rv, rt, st2) out2.
               (if lt \<noteq> rt then raise InterpTypeError out2 else if lt = Integer \<or> lt = Boolean \<or> lt = String \<or> lt = FloatingPoint then host (py_le lv rv) (\<lambda>result. ret (PyBool result, Boolean, st2) out2) out2 else if lt = Unit then ret (PyBool True, Boolean, st2) out2 else raise InterpTypeError out2))) = Some (r, out')"
        using ev by simp
    next
      fix lv lt rv rt st2 out2
      assume "wt_val lv lt" "wt_val rv rt" "wt_state st2"
        "(if lt \<noteq> rt then raise InterpTypeError out2 else if lt = Integer \<or> lt = Boolean \<or> lt = String \<or> lt = FloatingPoint then host (py_le lv rv) (\<lambda>result. ret (PyBool result, Boolean, st2) out2) out2 else if lt = Unit then ret (PyBool True, Boolean, st2) out2 else raise InterpTypeError out2) = Some (r, out')"
      then show "ok_result r"
        using py_le_wt [of lv lt rv] by (auto simp: ret_def raise_def host_def split: if_splits)
    qed
  qed
next
  case (23 n left right st out)
  show ?case
  proof (intro allI impI)
    fix r out' assume wt: "wt_state st" and ev: "evaluate n (Gt left right) st out = Some (r, out')"
    show "ok_result r"
    proof (rule binop_wt [OF "23.IH"(1) "23.IH"(2) wt])
      show "and_then (evaluate n left st out) (\<lambda>(lv, lt, st1) out1.
             and_then (evaluate n right st1 out1) (\<lambda>(rv, rt, st2) out2.
               (if lt \<noteq> rt then raise InterpTypeError out2 else if lt = Integer \<or> lt = Boolean \<or> lt = String \<or> lt = FloatingPoint then host (py_gt lv rv) (\<lambda>result. ret (PyBool result, Boolean, st2) out2) out2 else if lt = Unit then ret (PyBool False, Boolean, st2) out2 else raise InterpTypeError out2))) = Some (r, out')"
        using ev by simp
    next
      fix lv lt rv rt st2 out2
      assume "wt_val lv lt" "wt_val rv rt" "wt_state st2"
        "(if lt \<noteq> rt then raise InterpTypeError out2 else if lt = Integer \<or> lt = Boolean \<or> lt = String \<or> lt = FloatingPoint then host (py_gt lv rv) (\<lambda>result. ret (PyBool result, Boolean, st2) out2) out2 else if lt = Unit then ret (PyBool False, Boolean, st2) out2 else raise InterpTypeError out2) = Some (r, out')"
      then show "ok_result r"
        using py_gt_wt [of lv lt rv] by (auto simp: ret_def raise_def host_def split: if_splits)
    qed
  qed
next
  case (24 n left right st out)
  show ?case
  proof (intro allI impI)
    fix r out' assume wt: "wt_state st" and ev: "evaluate n (Gte left right) st out = Some (r, out')"
    show "ok_result r"
    proof (rule binop_wt [OF "24.IH"(1) "24.IH"(2) wt])
      show "and_then (evaluate n left st out) (\<lambda>(lv, lt, st1) out1.
             and_then (evaluate n right st1 out1) (\<lambda>(rv, rt, st2) out2.
               (if lt \<noteq> rt then raise InterpTypeError out2 else if lt = Integer \<or> lt = Boolean \<or> lt = String \<or> lt = FloatingPoint then host (py_ge lv rv) (\<lambda>result. ret (PyBool result, Boolean, st2) out2) out2 else if lt = Unit then ret (PyBool True, Boolean, st2) out2 else raise InterpTypeError out2))) = Some (r, out')"
        using ev by simp
    next
      fix lv lt rv rt st2 out2
      assume "wt_val lv lt" "wt_val rv rt" "wt_state st2"
        "(if lt \<noteq> rt then raise InterpTypeError out2 else if lt = Integer \<or> lt = Boolean \<or> lt = String \<or> lt = FloatingPoint then host (py_ge lv rv) (\<lambda>result. ret (PyBool result, Boolean, st2) out2) out2 else if lt = Unit then ret (PyBool True, Boolean, st2) out2 else raise InterpTypeError out2) = Some (r, out')"
      then show "ok_result r"
        using py_ge_wt [of lv lt rv] by (auto simp: ret_def raise_def host_def split: if_splits)
    qed
  qed
next
  case (25 n left right st out)
  show ?case
  proof (intro allI impI)
    fix r out' assume wt: "wt_state st" and ev: "evaluate n (Eq left right) st out = Some (r, out')"
    show "ok_result r"
    proof (rule binop_wt [OF "25.IH"(1) "25.IH"(2) wt])
      show "and_then (evaluate n left st out) (\<lambda>(lv, lt, st1) out1.
             and_then (evaluate n right st1 out1) (\<lambda>(rv, rt, st2) out2.
               (if lt \<noteq> rt then raise InterpTypeError out2 else if lt = Integer \<or> lt = Boolean \<or> lt = String \<or> lt = FloatingPoint then host (Some (py_eq lv rv)) (\<lambda>result. ret (PyBool result, Boolean, st2) out2) out2 else if lt = Unit then ret (PyBool True, Boolean, st2) out2 else raise InterpTypeError out2))) = Some (r, out')"
        using ev by simp
    next
      fix lv lt rv rt st2 out2
      assume "wt_val lv lt" "wt_val rv rt" "wt_state st2"
        "(if lt \<noteq> rt then raise InterpTypeError out2 else if lt = Integer \<or> lt = Boolean \<or> lt = String \<or> lt = FloatingPoint then host (Some (py_eq lv rv)) (\<lambda>result. ret (PyBool result, Boolean, st2) out2) out2 else if lt = Unit then ret (PyBool True, Boolean, st2) out2 else raise InterpTypeError out2) = Some (r, out')"
      then show "ok_result r"
        using TrueI by (auto simp: ret_def raise_def host_def split: if_splits)
    qed
  qed
next
  case (26 n left right st out)
  show ?case
  proof (intro allI impI)
    fix r out' assume wt: "wt_state st" and ev: "evaluate n (Ne left right) st out = Some (r, out')"
    show "ok_result r"
    proof (rule binop_wt [OF "26.IH"(1) "26.IH"(2) wt])
      show "and_then (evaluate n left st out) (\<lambda>(lv, lt, st1) out1.
             and_then (evaluate n right st1 out1) (\<lambda>(rv, rt, st2) out2.
               (if lt \<noteq> rt then raise InterpTypeError out2 else if lt = Integer \<or> lt = Boolean \<or> lt = String \<or> lt = FloatingPoint then host (Some (\<not> py_eq lv rv)) (\<lambda>result. ret (PyBool result, Boolean, st2) out2) out2 else if lt = Unit then ret (PyBool False, Boolean, st2) out2 else raise InterpTypeError out2))) = Some (r, out')"
        using ev by simp
    next
      fix lv lt rv rt st2 out2
      assume "wt_val lv lt" "wt_val rv rt" "wt_state st2"
        "(if lt \<noteq> rt then raise InterpTypeError out2 else if lt = Integer \<or> lt = Boolean \<or> lt = String \<or> lt = FloatingPoint then host (Some (\<not> py_eq lv rv)) (\<lambda>result. ret (PyBool result, Boolean, st2) out2) out2 else if lt = Unit then ret (PyBool False, Boolean, st2) out2 else raise InterpTypeError out2) = Some (r, out')"
      then show "ok_result r"
        using TrueI by (auto simp: ret_def raise_def host_def split: if_splits)
    qed
  qed
next
  case (27 n condition body st out)
  show ?case
  proof (intro allI impI)
    fix r out' assume wt: "wt_state st" and ev: "evaluate n (While condition body) st out = Some (r, out')"
    show "ok_result r"
    proof (rule unop_wt [OF "27.IH"(1) wt])
      show "and_then (evaluate n condition st out) (\<lambda>(v, t, st1) out1. (if t = Boolean then while_loop n condition body v t st1 out1 else raise InterpTypeError out1)) = Some (r, out')"
        using ev by simp
    next
      fix v t st1 out1
      assume a: "wt_val v t" "wt_state st1" "(if t = Boolean then while_loop n condition body v t st1 out1 else raise InterpTypeError out1) = Some (r, out')"
      show "ok_result r"
      proof (cases "t = Boolean")
        case False
        with a show ?thesis by (auto simp: raise_def)
      next
        case True
        from "27.IH"(2) [OF True] a True show ?thesis by simp blast
      qed
    qed
  qed
next
  case (28 condition body result cond_type st out)
  then show ?case by (auto simp: ret_def split: if_splits)
next
  case (29 k condition body result cond_type st out)
  show ?case
  proof (intro allI impI)
    fix r out'
    assume wt: "wt_state st" "wt_val result cond_type"
      and ev: "while_loop (Suc k) condition body result cond_type st out = Some (r, out')"
    show "ok_result r"
    proof (cases "py_truthy result")
      case False
      with ev wt show ?thesis by (auto simp: ret_def)
    next
      case True
      from ev True consider
          (berr) e where "evaluate k body st out = Some (Inl e, out')" "r = Inl e"
        | (bok) bv bt st1 out1 where "evaluate k body st out = Some (Inr (bv, bt, st1), out1)"
            "and_then (evaluate k condition st1 out1) (\<lambda>(cond_result, cond_type, new_state) out2.
               if cond_type = Boolean
               then while_loop k condition body cond_result cond_type new_state out2
               else raise InterpTypeError out2) = Some (r, out')"
        by (auto simp: and_then_Some_iff)
      then show ?thesis
      proof cases
        case berr
        with 29(1) True wt show ?thesis by blast
      next
        case bok
        from 29(1) True wt bok(1) have st1: "wt_state st1" by fastforce
        from bok(2) consider
            (cerr) e where "evaluate k condition st1 out1 = Some (Inl e, out')" "r = Inl e"
          | (ctype) cv ct st2 where "evaluate k condition st1 out1 = Some (Inr (cv, ct, st2), out')"
              "ct \<noteq> Boolean" "r = Inl InterpTypeError"
          | (cok) cv st2 out2 where "evaluate k condition st1 out1 = Some (Inr (cv, Boolean, st2), out2)"
              "while_loop k condition body cv Boolean st2 out2 = Some (r, out')"
          by (auto simp: and_then_Some_iff raise_def split: if_splits)
        then show ?thesis
        proof cases
          case cerr
          with 29(2) True st1 show ?thesis by blast
        next
          case ctype
          then show ?thesis by simp
        next
          case cok
          from 29(2) True st1 cok(1) have "wt_val cv Boolean" "wt_state st2" by fastforce+
          with 29(3) True cok(2) show ?thesis by blast
        qed
      qed
    qed
  qed
qed


lemma evaluate_wt:
  assumes "wt_state st" and "evaluate n e st out = ret (v, t, st') out'"
  shows "wt_val v t" and "wt_state st'"
  using evaluate_wt_aux(1) [of st n e out] assms by (auto simp: ret_def)

lemma evaluate_no_host_error:
  assumes "wt_state st"
  shows "evaluate n e st out \<noteq> raise HostError out'"
  using evaluate_wt_aux(1) [of st n e out] assms by (auto simp: raise_def)

lemma Program_as_Sequence: "evaluate n (Program es) env out = evaluate n (Sequence es) env out"
  by (cases es) simp_all

lemma and_then_assoc:
  "and_then (and_then r f) g = and_then r (\<lambda>x out. and_then (f x out) g)"
  by (auto simp: and_then_def split: option.splits sum.splits prod.splits)

lemma and_then_ret: "and_then r ret = r"
  by (auto simp: and_then_def ret_def split: option.splits sum.splits prod.splits)

lemma Sequence_one: "evaluate n (Sequence [e]) env out = evaluate n e env out"
  by (simp add: and_then_ret)

lemma Sequence_Cons:
  "es \<noteq> [] \<Longrightarrow> evaluate n (Sequence (e # es)) env out =
     and_then (evaluate n e env out) (\<lambda>(_, _, env1) out1. evaluate n (Sequence es) env1 out1)"
  by (auto intro!: arg_cong2 [where f = and_then])

lemma Sequence_snoc:
  "es \<noteq> [] \<Longrightarrow> evaluate n (Sequence (es @ [e])) env out =
     and_then (evaluate n (Sequence es) env out) (\<lambda>(_, _, env1) out1. evaluate n e env1 out1)"
proof (induction es arbitrary: env out)
  case Nil
  then show ?case by simp
next
  case (Cons x xs)
  show ?case
  proof (cases "xs = []")
    case True
    have "evaluate n (Sequence ([x] @ [e])) env out =
        and_then (evaluate n x env out)
          (\<lambda>(_, _, env1) out1. evaluate n (Sequence [e]) env1 out1)"
      using Sequence_Cons [of "[e]" n x env out] by simp
    then show ?thesis
      unfolding True Sequence_one .
  next
    case False
    have "evaluate n (Sequence ((x # xs) @ [e])) env out =
        and_then (evaluate n x env out)
          (\<lambda>(_, _, env1) out1. evaluate n (Sequence (xs @ [e])) env1 out1)"
      using Sequence_Cons [of "xs @ [e]" n x env out] by simp
    also have "\<dots> = and_then (evaluate n x env out)
          (\<lambda>(_, _, env1) out1. and_then (evaluate n (Sequence xs) env1 out1)
             (\<lambda>(_, _, env2) out2. evaluate n e env2 out2))"
      using Cons.IH [OF False] by simp
    also have "\<dots> = and_then (evaluate n (Sequence (x # xs)) env out)
          (\<lambda>(_, _, env2) out2. evaluate n e env2 out2)"
      unfolding Sequence_Cons [OF False] and_then_assoc
      by (auto intro!: arg_cong2 [where f = and_then])
    finally show ?thesis .
  qed
qed

lemma and_then_ret_iff:
  "and_then r k = ret y out' \<longleftrightarrow> (\<exists>x out1. r = ret x out1 \<and> k x out1 = ret y out')"
  by (auto simp: and_then_def ret_def split: option.splits sum.splits prod.splits)

lemma outcome_simps:
  "raise e out \<noteq> ret x out'" "ret x out' \<noteq> raise e out"
  "ret x out = ret y out' \<longleftrightarrow> x = y \<and> out = out'"
  "raise e out = raise e' out' \<longleftrightarrow> e = e' \<and> out = out'"
  "ret x out \<noteq> None" "raise e out \<noteq> None" "None \<noteq> ret x out" "None \<noteq> raise e out"
  by (auto simp: ret_def raise_def)

lemma while_loop_false:
  "\<not> py_truthy result \<Longrightarrow> while_loop k c b result ct st out = ret (result, ct, st) out"
  by (cases k) simp_all

lemma while_loop_exit:
  "while_loop k c b result Boolean st out = ret (v, t, env') out' \<Longrightarrow>
     t = Boolean \<and> \<not> py_truthy v \<and>
     ((v = result \<and> env' = st \<and> out' = out) \<or>
      (\<exists>j st_j out_j. j < k \<and> evaluate j c st_j out_j = ret (v, t, env') out'))"
proof (induction k arbitrary: result st out)
  case 0
  then show ?case by (auto simp: outcome_simps split: if_splits)
next
  case (Suc k)
  show ?case
  proof (cases "py_truthy result")
    case False
    with Suc.prems show ?thesis by (auto simp: outcome_simps)
  next
    case True
    with Suc.prems obtain bv bt st1 out1 cv ct st2 out2
      where body: "evaluate k b st out = ret (bv, bt, st1) out1"
        and cond: "evaluate k c st1 out1 = ret (cv, ct, st2) out2"
        and rest: "(if ct = Boolean then while_loop k c b cv ct st2 out2
                    else raise InterpTypeError out2) = ret (v, t, env') out'"
      by (auto simp: and_then_ret_iff)
    from rest have ct: "ct = Boolean"
      and loop: "while_loop k c b cv Boolean st2 out2 = ret (v, t, env') out'"
      by (auto simp: outcome_simps split: if_splits)
    from Suc.IH [OF loop] have t: "t = Boolean" and f: "\<not> py_truthy v" by simp_all
    from Suc.IH [OF loop] consider "v = cv \<and> env' = st2 \<and> out' = out2"
      | j st_j out_j where "j < k" "evaluate j c st_j out_j = ret (v, t, env') out'"
      by blast
    then have "\<exists>j st_j out_j. j < Suc k \<and> evaluate j c st_j out_j = ret (v, t, env') out'"
    proof cases
      case 1
      with cond ct t have "evaluate k c st1 out1 = ret (v, t, env') out'" by simp
      then show ?thesis by blast
    next
      case 2
      then have "j < Suc k" by simp
      with 2 show ?thesis by blast
    qed
    with t f show ?thesis by blast
  qed
qed

text \<open>
  The bound on loop iterations only cuts evaluations short: an outcome reached within
  \<open>n\<close> iterations per loop is the outcome for every larger bound.
\<close>

lemma and_then_mono:
  assumes "and_then X K = Some r"
    and "\<And>z. X = Some z \<Longrightarrow> X' = Some z"
    and "\<And>x out z. K x out = Some z \<Longrightarrow> K' x out = Some z"
  shows "and_then X' K' = Some r"
proof (cases X)
  case None
  with assms(1) show ?thesis by simp
next
  case (Some z)
  with assms(2) have X': "X' = Some z" by simp
  obtain res out where z: "z = (res, out)" by (cases z)
  show ?thesis
  proof (cases res)
    case (Inl e)
    with assms(1) Some X' z show ?thesis by simp
  next
    case (Inr x)
    with assms(1) Some z have "K x out = Some r" by simp
    from assms(3) [OF this] X' z Inr show ?thesis by simp
  qed
qed

lemma fuel_mono_aux:
  "\<forall>m r. evaluate n e st out = Some r \<longrightarrow> n \<le> m \<longrightarrow> evaluate m e st out = Some r"
  "\<forall>m r. while_loop n c b result ct st out = Some r \<longrightarrow> n \<le> m \<longrightarrow>
      while_loop m c b result ct st out = Some r"
proof (induction n e st out and n c b result ct st out rule: evaluate_while_loop.induct)
  case (1 n st out) show ?case by simp
next
  case (2 n l st out) show ?case by simp
next
  case (3 n l st out) show ?case by simp
next
  case (4 n l st out) show ?case by simp
next
  case (5 n l st out) show ?case by simp
next
  case (6 n to_print st out)
  show ?case
  proof (intro allI impI)
    fix m r assume ev: "evaluate n (Print to_print) st out = Some r" and le: "n \<le> m"
    from ev show "evaluate m (Print to_print) st out = Some r"
      apply simp
      apply (erule and_then_mono)
       apply (use "6.IH" le in blast)
      apply assumption
      done
  qed
next
  case (7 n st out) show ?case by simp
next
  case (8 n e es st out)
  show ?case
  proof (intro allI impI)
    fix m r assume ev: "evaluate n (Sequence (e # es)) st out = Some r" and le: "n \<le> m"
    from ev show "evaluate m (Sequence (e # es)) st out = Some r"
      apply simp
      apply (erule and_then_mono)
       apply (use "8.IH"(1) le in blast)
      apply (clarsimp split: if_splits)
      apply (rule "8.IH"(2) [rule_format])
        apply (simp_all add: le)
      done
  qed
next
  case (9 n st out) show ?case by simp
next
  case (10 n e es st out)
  show ?case
  proof (intro allI impI)
    fix m r assume ev: "evaluate n (Program (e # es)) st out = Some r" and le: "n \<le> m"
    from ev show "evaluate m (Program (e # es)) st out = Some r"
      apply simp
      apply (erule and_then_mono)
       apply (use "10.IH"(1) le in blast)
      apply (clarsimp split: if_splits)
      apply (rule "10.IH"(2) [rule_format])
        apply (simp_all add: le)
      done
  qed
next
  case (11 n variable_name st out) show ?case by simp
next
  case (12 n variable_name value_expr st out)
  show ?case
  proof (intro allI impI)
    fix m r assume ev: "evaluate n (Assign variable_name value_expr) st out = Some r" and le: "n \<le> m"
    from ev show "evaluate m (Assign variable_name value_expr) st out = Some r"
      apply simp
      apply (erule and_then_mono)
       apply (use "12.IH" le in blast)
      apply assumption
      done
  qed
next
  case (13 n left right st out)
  show ?case
  proof (intro allI impI)
    fix m r assume ev: "evaluate n (Add left right) st out = Some r" and le: "n \<le> m"
    from ev show "evaluate m (Add left right) st out = Some r"
      apply simp
      apply (erule and_then_mono)
       apply (use "13.IH"(1) le in blast)
      apply clarsimp
      apply (erule and_then_mono)
       apply (use "13.IH"(2) le in blast)
      apply assumption
      done
  qed
next
  case (14 n left right st out)
  show ?case
  proof (intro allI impI)
    fix m r assume ev: "evaluate n (Subtract left right) st out = Some r" and le: "n \<le> m"
    from ev show "evaluate m (Subtract left right) st out = Some r"
      apply simp
      apply (erule and_then_mono)
       apply (use "14.IH"(1) le in blast)
      apply clarsimp
      apply (erule and_then_mono)
       apply (use "14.IH"(2) le in blast)
      apply assumption
      done
  qed
next
  case (15 n left right st out)
  show ?case
  proof (intro allI impI)
    fix m r assume ev: "evaluate n (Multiply left right) st out = Some r" and le: "n \<le> m"
    from ev show "evaluate m (Multiply left right) st out = Some r"
      apply simp
      apply (erule and_then_mono)
       apply (use "15.IH"(1) le in blast)
      apply clarsimp
      apply (erule and_then_mono)
       apply (use "15.IH"(2) le in blast)
      apply assumption
      done
  qed
next
  case (16 n left right st out)
  show ?case
  proof (intro allI impI)
    fix m r assume ev: "evaluate n (Divide left right) st out = Some r" and le: "n \<le> m"
    from ev show "evaluate m (Divide left right) st out = Some r"
      apply simp
      apply (erule and_then_mono)
       apply (use "16.IH"(1) le in blast)
      apply clarsimp
      apply (erule and_then_mono)
       apply (use "16.IH"(2) le in blast)
      apply assumption
      done
  qed
next
  case (17 n left right st out)
  show ?case
  proof (intro allI impI)
    fix m r assume ev: "evaluate n (And left right) st out = Some r" and le: "n \<le> m"
    from ev show "evaluate m (And left right) st out = Some r"
      apply simp
      apply (erule and_then_mono)
       apply (use "17.IH"(1) le in blast)
      apply clarsimp
      apply (erule and_then_mono)
       apply (use "17.IH"(2) le in blast)
      apply assumption
      done
  qed
next
  case (18 n left right st out)
  show ?case
  proof (intro allI impI)
    fix m r assume ev: "evaluate n (Or left right) st out = Some r" and le: "n \<le> m"
    from ev show "evaluate m (Or left right) st out = Some r"
      apply simp
      apply (erule and_then_mono)
       apply (use "18.IH"(1) le in blast)
      apply clarsimp
      apply (erule and_then_mono)
       apply (use "18.IH"(2) le in blast)
      apply assumption
      done
  qed
next
  case (19 n e st out)
  show ?case
  proof (intro allI impI)
    fix m r assume ev: "evaluate n (Not_e e) st out = Some r" and le: "n \<le> m"
    from ev show "evaluate m (Not_e e) st out = Some r"
      apply simp
      apply (erule and_then_mono)
       apply (use "19.IH" le in blast)
      apply assumption
      done
  qed
next
  case (20 n condition true false st out)
  show ?case
  proof (intro allI impI)
    fix m r assume ev: "evaluate n (If_e condition true false) st out = Some r" and le: "n \<le> m"
    from ev show "evaluate m (If_e condition true false) st out = Some r"
      apply simp
      apply (erule and_then_mono)
       apply (use "20.IH"(1) le in blast)
      apply (clarsimp split: if_splits)
       apply (use "20.IH"(2) le in blast)
      apply (use "20.IH"(3) le in blast)
      done
  qed
next
  case (21 n left right st out)
  show ?case
  proof (intro allI impI)
    fix m r assume ev: "evaluate n (Lt left right) st out = Some r" and le: "n \<le> m"
    from ev show "evaluate m (Lt left right) st out = Some r"
      apply simp
      apply (erule and_then_mono)
       apply (use "21.IH"(1) le in blast)
      apply clarsimp
      apply (erule and_then_mono)
       apply (use "21.IH"(2) le in blast)
      apply assumption
      done
  qed
next
  case (22 n left right st out)
  show ?case
  proof (intro allI impI)
    fix m r assume ev: "evaluate n (Lte left right) st out = Some r" and le: "n \<le> m"
    from ev show "evaluate m (Lte left right) st out = Some r"
      apply simp
      apply (erule and_then_mono)
       apply (use "22.IH"(1) le in blast)
      apply clarsimp
      apply (erule and_then_mono)
       apply (use "22.IH"(2) le in blast)
      apply assumption
      done
  qed
next
  case (23 n left right st out)
  show ?case
  proof (intro allI impI)
    fix m r assume ev: "evaluate n (Gt left right) st out = Some r" and le: "n \<le> m"
    from ev show "evaluate m (Gt left right) st out = Some r"
      apply simp
      apply (erule and_then_mono)
       apply (use "23.IH"(1) le in blast)
      apply clarsimp
      apply (erule and_then_mono)
       apply (use "23.IH"(2) le in blast)
      apply assumption
      done
  qed
next
  case (24 n left right st out)
  show ?case
  proof (intro allI impI)
    fix m r assume ev: "evaluate n (Gte left right) st out = Some r" and le: "n \<le> m"
    from ev show "evaluate m (Gte left right) st out = Some r"
      apply simp
      apply (erule and_then_mono)
       apply (use "24.IH"(1) le in blast)
      apply clarsimp
      apply (erule and_then_mono)
       apply (use "24.IH"(2) le in blast)
      apply assumption
      done
  qed
next
  case (25 n left right st out)
  show ?case
  proof (intro allI impI)
    fix m r assume ev: "evaluate n (Eq left right) st out = Some r" and le: "n \<le> m"
    from ev show "evaluate m (Eq left right) st out = Some r"
      apply simp
      apply (erule and_then_mono)
       apply (use "25.IH"(1) le in blast)
      apply clarsimp
      apply (erule and_then_mono)
       apply (use "25.IH"(2) le in blast)
      apply assumption
      done
  qed
next
  case (26 n left right st out)
  show ?case
  proof (intro allI impI)
    fix m r assume ev: "evaluate n (Ne left right) st out = Some r" and le: "n \<le> m"
    from ev show "evaluate m (Ne left right) st out = Some r"
      apply simp
      apply (erule and_then_mono)
       apply (use "26.IH"(1) le in blast)
      apply clarsimp
      apply (erule and_then_mono)
       apply (use "26.IH"(2) le in blast)
      apply assumption
      done
  qed
next
  case (27 n condition body st out)
  show ?case
  proof (intro allI impI)
    fix m r assume ev: "evaluate n (While condition body) st out = Some r" and le: "n \<le> m"
    from ev show "evaluate m (While condition body) st out = Some r"
      apply simp
      apply (erule and_then_mono)
       apply (use "27.IH"(1) le in blast)
      apply (clarsimp split: if_splits)
      apply (use "27.IH"(2) le in blast)
      done
  qed
next
  case (28 condition body result cond_type st out)
  show ?case
  proof (intro allI impI)
    fix m r assume ev: "while_loop 0 condition body result cond_type st out = Some r"
    then have "\<not> py_truthy result" by (auto split: if_splits)
    with ev show "while_loop m condition body result cond_type st out = Some r"
      by (simp add: while_loop_false)
  qed
next
  case (29 k condition body result cond_type st out)
  show ?case
  proof (intro allI impI)
    fix m r
    assume ev: "while_loop (Suc k) condition body result cond_type st out = Some r"
      and le: "Suc k \<le> m"
    from le obtain m' where m: "m = Suc m'" and le': "k \<le> m'" by (cases m) auto
    show "while_loop m condition body result cond_type st out = Some r"
    proof (cases "py_truthy result")
      case False
      with ev show ?thesis by (simp add: while_loop_false)
    next
      case True
      from ev show ?thesis
        unfolding m
        apply (simp add: True)
        apply (erule and_then_mono)
         apply (use "29.IH"(1) True le' in blast)
        apply clarsimp
        apply (erule and_then_mono)
         apply (use "29.IH"(2) True le' in blast)
        apply (clarsimp split: if_splits)
        apply (use "29.IH"(3) True le' in blast)
        done
    qed
  qed
qed

lemma evaluate_fuel_mono:
  "evaluate n e st out = Some r \<Longrightarrow> n \<le> m \<Longrightarrow> evaluate m e st out = Some r"
  using fuel_mono_aux(1) by blast

lemma evaluate_fuel_unique:
  assumes "evaluate n e st out = Some r" and "evaluate m e st out = Some r'"
  shows "r = r'"
proof (cases "n \<le> m")
  case True
  from evaluate_fuel_mono [OF assms(1) True] assms(2) show ?thesis by simp
next
  case False
  then have "m \<le> n" by simp
  from evaluate_fuel_mono [OF assms(2) this] assms(1) show ?thesis by simp
qed

text \<open>Evaluation of the rounding on numerals.\<close>

lemma floor_rat_divide_numeral:
  "\<lfloor>(numeral a :: rat) / numeral b\<rfloor> = numeral a div numeral b"
  using floor_divide_of_int_eq [of "numeral a" "numeral b", where ?'a = rat] by simp

lemma ceiling_rat_divide_numeral:
  "\<lceil>(numeral a :: rat) / numeral b\<rceil> = - ((- numeral a) div numeral b)"
  using floor_divide_of_int_eq [of "- numeral a" "numeral b", where ?'a = rat]
  by (simp add: ceiling_def)

lemmas float_eval = round64_def round_magnitude_def floor_log2_def pow2_def
  round_half_even_def bit_length.simps Let_def floor_rat_divide_numeral ceiling_rat_divide_numeral

lemma float_div_finite:
  assumes "a \<noteq> 0" and "b \<noteq> 0"
  shows "float_div (Finite a) (Finite b) = round64 (a / b)"
proof -
  have "(if (a < 0) \<noteq> (b < 0) then - (\<bar>a\<bar> / \<bar>b\<bar>) else \<bar>a\<bar> / \<bar>b\<bar>) = a / b"
    by (auto simp: abs_if)
  with assms show ?thesis
    by (simp add: float_div_def)
qed

section \<open>The environment chain\<close>

text \<open>
  C9. Extending an environment with \<open>(n, v, t)\<close> and looking \<open>n\<close> up at once returns
  \<open>(v, t)\<close>, whatever the environment held for \<open>n\<close> before (the nearest frame wins).
  The extension is a new head frame whose next state is the receiver itself, which is
  left as it was: every other name is looked up in the extended chain as in the
  receiver. Looking any name up in the empty environment returns not-found.
\<close>

theorem extend_then_lookup:
  "get_value (set_value env n v t) n = Some (v, t) \<and>
   next_state (set_value env n v t) = Some env \<and>
   (\<forall>m. m \<noteq> n \<longrightarrow> get_value (set_value env n v t) m = get_value env m) \<and>
   get_value EmptyState m' = None"
  by (simp add: set_value_def)

theorem extend_then_lookup_witness:
  "get_value (State ''x'' (PyInt 1) Integer EmptyState) ''x'' = Some (PyInt 1, Integer) \<and>
   get_value (set_value (State ''x'' (PyInt 1) Integer EmptyState) ''x'' (PyInt 2) Integer) ''x''
     = Some (PyInt 2, Integer) \<and>
   next_state (set_value (State ''x'' (PyInt 1) Integer EmptyState) ''x'' (PyInt 2) Integer)
     = Some (State ''x'' (PyInt 1) Integer EmptyState) \<and>
   ''y'' \<noteq> ''x'' \<and>
   get_value (set_value (State ''x'' (PyInt 1) Integer EmptyState) ''x'' (PyInt 2) Integer) ''y''
     = None"
  using extend_then_lookup [of "State ''x'' (PyInt 1) Integer EmptyState" "''x''" "PyInt 2" Integer "''y''"]
  by simp

section \<open>Reading a variable\<close>

text \<open>
  C8. Evaluating \<open>Variable name\<close> in an environment where \<open>name\<close> is not bound raises
  the syntax-class error and returns nothing, so no default value; where \<open>name\<close> is
  bound, it returns the bound value and type, and the environment it was given.
\<close>

theorem variable_read:
  "(get_value env name = None \<longrightarrow>
      evaluate n (Variable name) env out = raise InterpSyntaxError out \<and>
      (\<forall>r out'. evaluate n (Variable name) env out \<noteq> ret r out')) \<and>
   (\<forall>v t. get_value env name = Some (v, t) \<longrightarrow>
      evaluate n (Variable name) env out = ret (v, t, env) out)"
  by (simp add: raise_def ret_def)

theorem variable_read_witness:
  "get_value EmptyState ''x'' = None \<and>
   evaluate 0 (Variable ''x'') EmptyState [] = raise InterpSyntaxError [] \<and>
   get_value (State ''x'' (PyStr ''a'') String EmptyState) ''x'' = Some (PyStr ''a'', String) \<and>
   evaluate 0 (Variable ''x'') (State ''x'' (PyStr ''a'') String EmptyState) []
     = ret (PyStr ''a'', String, State ''x'' (PyStr ''a'') String EmptyState) []"
  using variable_read [of EmptyState "''x''" 0 "[]"]
    variable_read [of "State ''x'' (PyStr ''a'') String EmptyState" "''x''" 0 "[]"]
  by simp

text \<open>
  C10. Where a name is bound to the Unit value (the host's \<^verbatim>\<open>None\<close>, tagged Unit),
  evaluating \<open>Variable\<close> on it returns that value with type Unit and the environment
  unchanged: the lookup returns the pair (None, Unit), which is not the not-found
  answer None. In particular the name reads back right after it was bound so.
\<close>

theorem unit_binding_read:
  "(get_value env name = Some (PyNone, Unit) \<longrightarrow>
      evaluate n (Variable name) env out = ret (PyNone, Unit, env) out) \<and>
   get_value (set_value env name PyNone Unit) name \<noteq> None \<and>
   evaluate n (Variable name) (set_value env name PyNone Unit) out
     = ret (PyNone, Unit, set_value env name PyNone Unit) out"
  by (simp add: ret_def set_value_def)

theorem unit_binding_read_witness:
  "get_value (State ''u'' PyNone Unit EmptyState) ''u'' = Some (PyNone, Unit) \<and>
   evaluate 0 (Variable ''u'') (State ''u'' PyNone Unit EmptyState) []
     = ret (PyNone, Unit, State ''u'' PyNone Unit EmptyState) []"
  using unit_binding_read [of "State ''u'' PyNone Unit EmptyState" "''u''" 0 "[]"]
  by simp

section \<open>Assignment\<close>

text \<open>
  C1. In \<open>Assign x value_expr\<close> the value expression is evaluated first; say it
  returns \<open>(v, t, env1)\<close>. If \<open>env1\<close> holds a binding of \<open>x\<close> whose type differs from
  \<open>t\<close>, the assignment raises the type-class error. If \<open>env1\<close> holds no binding of
  \<open>x\<close>, it succeeds whatever \<open>t\<close> is, and so it does over a binding of the same
  type. Whenever it succeeds its result is \<open>(v, t, env1 extended with (x, v, t))\<close>, and
  reading \<open>x\<close> in that environment returns the new value \<open>v\<close> with type \<open>t\<close>.
\<close>

theorem assign_semantics:
  assumes "evaluate n value_expr env out = ret (v, t, env1) out1"
  shows "(\<forall>v' t'. get_value env1 x = Some (v', t') \<and> t' \<noteq> t \<longrightarrow>
            evaluate n (Assign x value_expr) env out = raise InterpTypeError out1) \<and>
         (get_value env1 x = None \<longrightarrow>
            evaluate n (Assign x value_expr) env out = ret (v, t, set_value env1 x v t) out1) \<and>
         (\<forall>v'. get_value env1 x = Some (v', t) \<longrightarrow>
            evaluate n (Assign x value_expr) env out = ret (v, t, set_value env1 x v t) out1) \<and>
         (\<forall>r out'. evaluate n (Assign x value_expr) env out = ret r out' \<longrightarrow>
            r = (v, t, set_value env1 x v t) \<and> out' = out1) \<and>
         (\<forall>m out2. evaluate m (Variable x) (set_value env1 x v t) out2
            = ret (v, t, set_value env1 x v t) out2)"
  using assms by (auto simp: ret_def raise_def set_value_def Let_def split: option.splits if_splits)

theorem assign_semantics_witness:
  "evaluate 0 (FloatingPointLiteral (Finite 2)) (State ''x'' (PyInt 1) Integer EmptyState) []
     = ret (PyFloat (Finite 2), FloatingPoint, State ''x'' (PyInt 1) Integer EmptyState) [] \<and>
   evaluate 0 (Assign ''x'' (FloatingPointLiteral (Finite 2))) (State ''x'' (PyInt 1) Integer EmptyState) []
     = raise InterpTypeError [] \<and>
   evaluate 0 (Assign ''x'' (IntLiteral 2)) (State ''x'' (PyInt 1) Integer EmptyState) []
     = ret (PyInt 2, Integer, State ''x'' (PyInt 2) Integer (State ''x'' (PyInt 1) Integer EmptyState)) [] \<and>
   evaluate 0 (Assign ''x'' (FloatingPointLiteral (Finite 2))) EmptyState []
     = ret (PyFloat (Finite 2), FloatingPoint, State ''x'' (PyFloat (Finite 2)) FloatingPoint EmptyState) [] \<and>
   evaluate 0 (Variable ''x'') (State ''x'' (PyInt 2) Integer (State ''x'' (PyInt 1) Integer EmptyState)) []
     = ret (PyInt 2, Integer, State ''x'' (PyInt 2) Integer (State ''x'' (PyInt 1) Integer EmptyState)) []"
  using assign_semantics [of 0 "FloatingPointLiteral (Finite 2)" "State ''x'' (PyInt 1) Integer EmptyState" "[]"
          "PyFloat (Finite 2)" FloatingPoint "State ''x'' (PyInt 1) Integer EmptyState" "[]" "''x''"]
    assign_semantics [of 0 "IntLiteral 2" "State ''x'' (PyInt 1) Integer EmptyState" "[]"
          "PyInt 2" Integer "State ''x'' (PyInt 1) Integer EmptyState" "[]" "''x''"]
    assign_semantics [of 0 "FloatingPointLiteral (Finite 2)" EmptyState "[]"
          "PyFloat (Finite 2)" FloatingPoint EmptyState "[]" "''x''"]
  by (simp add: ret_def raise_def set_value_def)

section \<open>Sequencing\<close>

text \<open>
  C6. In every environment, \<open>Sequence\<close> or \<open>Program\<close> of no expression evaluates as
  the no-op node does, to \<open>(None, Unit, env)\<close>; of one expression, as that expression
  does. Of more, the first expression is evaluated in the incoming environment and the
  rest in the environment it produced; so the whole is the evaluation of the last
  expression in the environment produced by those before it, and its value, type and
  final environment are the result.
\<close>

theorem sequence_semantics:
  "evaluate n (Sequence []) env out = evaluate n Ren env out \<and>
   evaluate n (Program []) env out = evaluate n Ren env out \<and>
   evaluate n Ren env out = ret (PyNone, Unit, env) out \<and>
   evaluate n (Sequence [e]) env out = evaluate n e env out \<and>
   evaluate n (Program [e]) env out = evaluate n e env out \<and>
   (es \<noteq> [] \<longrightarrow>
      evaluate n (Sequence (e # es)) env out =
        and_then (evaluate n e env out) (\<lambda>(_, _, env1) out1. evaluate n (Sequence es) env1 out1) \<and>
      evaluate n (Program (e # es)) env out =
        and_then (evaluate n e env out) (\<lambda>(_, _, env1) out1. evaluate n (Program es) env1 out1) \<and>
      evaluate n (Sequence (es @ [e])) env out =
        and_then (evaluate n (Sequence es) env out) (\<lambda>(_, _, env1) out1. evaluate n e env1 out1) \<and>
      evaluate n (Program (es @ [e])) env out =
        and_then (evaluate n (Program es) env out) (\<lambda>(_, _, env1) out1. evaluate n e env1 out1))"
proof -
  show ?thesis
    using Sequence_one [of n e env out] Sequence_Cons [of es n e env out] Sequence_snoc [of es n e env out]
    by (simp only: Program_as_Sequence) simp
qed

theorem sequence_semantics_witness:
  "[Assign ''x'' (IntLiteral 1), Print (Variable ''x'')] \<noteq> [] \<and>
   evaluate 0 (Sequence []) EmptyState [] = ret (PyNone, Unit, EmptyState) [] \<and>
   evaluate 0 (Program [IntLiteral 5]) EmptyState [] = ret (PyInt 5, Integer, EmptyState) [] \<and>
   evaluate 0 (Sequence ([Assign ''x'' (IntLiteral 1), Print (Variable ''x'')]
                 @ [Add (Variable ''x'') (IntLiteral 1)])) EmptyState []
     = ret (PyInt 2, Integer, State ''x'' (PyInt 1) Integer EmptyState) [PrintedValue (PyInt 1)]"
  using sequence_semantics [of 0 EmptyState "[]" "IntLiteral 5" "[]"]
    sequence_semantics [of 0 EmptyState "[]" "Add (Variable ''x'') (IntLiteral 1)"
       "[Assign ''x'' (IntLiteral 1), Print (Variable ''x'')]"]
  by (simp add: ret_def raise_def set_value_def host_def arith_def)

section \<open>Division\<close>

text \<open>
  C2. Let the operands of \<open>Divide left right\<close> evaluate, left first and right in the
  environment left by it, to values of the same type. If the right value is zero (the
  host's test \<^verbatim>\<open>right_result == 0\<close>), the arithmetic-class error is raised, whatever
  the type, before the type is looked at. Otherwise a type other than Integer and
  FloatingPoint raises the type-class error. In a well-tagged environment the values
  that are zero are the integer 0, the floats 0.0 and -0.0 and, since the host counts
  False as 0, the boolean False; two Integer operands give the floor division of the
  two integers, and two FloatingPoint operands the host's true division of the two
  floats, which for finite non-zero operands is the exact quotient rounded to the
  nearest double.
\<close>

theorem divide_semantics:
  assumes "evaluate n left env out = ret (lv, lt, env1) out1"
    and "evaluate n right env1 out1 = ret (rv, rt, env2) out2"
    and "lt = rt"
  shows "(py_eq_zero rv \<longrightarrow>
            evaluate n (Divide left right) env out = raise InterpMathError out2) \<and>
         (\<not> py_eq_zero rv \<and> lt \<noteq> Integer \<and> lt \<noteq> FloatingPoint \<longrightarrow>
            evaluate n (Divide left right) env out = raise InterpTypeError out2) \<and>
         (wt_state env \<longrightarrow>
            (py_eq_zero rv \<longleftrightarrow> rv = PyInt 0 \<or> rv = PyFloat (Finite 0) \<or>
                                   rv = PyFloat NegZero \<or> rv = PyBool False) \<and>
            (\<not> py_eq_zero rv \<and> lt = Integer \<longrightarrow>
               (\<exists>a b. lv = PyInt a \<and> rv = PyInt b \<and> b \<noteq> 0 \<and>
                  evaluate n (Divide left right) env out
                    = ret (PyInt (a div b), Integer, env2) out2)) \<and>
            (\<not> py_eq_zero rv \<and> lt = FloatingPoint \<longrightarrow>
               (\<exists>x y. lv = PyFloat x \<and> rv = PyFloat y \<and> \<not> float_is_zero y \<and>
                  evaluate n (Divide left right) env out
                    = ret (PyFloat (float_div x y), FloatingPoint, env2) out2))) \<and>
         (\<forall>a b. a \<noteq> 0 \<and> b \<noteq> 0 \<longrightarrow> float_div (Finite a) (Finite b) = round64 (a / b))"
proof (intro conjI impI allI)
  assume "py_eq_zero rv"
  with assms show "evaluate n (Divide left right) env out = raise InterpMathError out2"
    by simp
next
  assume "\<not> py_eq_zero rv \<and> lt \<noteq> Integer \<and> lt \<noteq> FloatingPoint"
  with assms show "evaluate n (Divide left right) env out = raise InterpTypeError out2"
    by simp
next
  fix a b :: rat
  assume "a \<noteq> 0 \<and> b \<noteq> 0"
  then show "float_div (Finite a) (Finite b) = round64 (a / b)"
    by (simp add: float_div_finite)
next
  assume wt: "wt_state env"
  from evaluate_wt [OF wt assms(1)] have l: "wt_val lv lt" "wt_state env1" .
  from evaluate_wt(1) [OF l(2) assms(2)] have r: "wt_val rv rt" .
  from r show "py_eq_zero rv \<longleftrightarrow> rv = PyInt 0 \<or> rv = PyFloat (Finite 0) \<or>
                                 rv = PyFloat NegZero \<or> rv = PyBool False"
    by (cases rv) (auto simp: py_eq_zero_cases float_is_zero_def)
  {
    assume a: "\<not> py_eq_zero rv \<and> lt = Integer"
    with l r assms(3) py_floordiv_wt [of lv rv] obtain a' b'
      where "lv = PyInt a'" "rv = PyInt b'" "b' \<noteq> 0"
        "py_floordiv lv rv = Some (PyInt (a' div b'))" by auto
    with a assms show "\<exists>a b. lv = PyInt a \<and> rv = PyInt b \<and> b \<noteq> 0 \<and>
        evaluate n (Divide left right) env out = ret (PyInt (a div b), Integer, env2) out2"
      by (simp add: host_def)
  }
  {
    assume a: "\<not> py_eq_zero rv \<and> lt = FloatingPoint"
    with l r assms(3) py_truediv_wt [of lv rv] obtain x' y'
      where "lv = PyFloat x'" "rv = PyFloat y'" "\<not> float_is_zero y'"
        "py_truediv lv rv = Some (PyFloat (float_div x' y'))" by auto
    with a assms show "\<exists>x y. lv = PyFloat x \<and> rv = PyFloat y \<and> \<not> float_is_zero y \<and>
        evaluate n (Divide left right) env out
          = ret (PyFloat (float_div x y), FloatingPoint, env2) out2"
      by (simp add: host_def)
  }
qed

theorem divide_semantics_witness:
  "wt_state EmptyState \<and>
   evaluate 0 (IntLiteral 7) EmptyState [] = ret (PyInt 7, Integer, EmptyState) [] \<and>
   evaluate 0 (IntLiteral 2) EmptyState [] = ret (PyInt 2, Integer, EmptyState) [] \<and>
   evaluate 0 (Divide (IntLiteral 7) (IntLiteral 2)) EmptyState []
     = ret (PyInt 3, Integer, EmptyState) [] \<and>
   evaluate 0 (Divide (FloatingPointLiteral (Finite 7)) (FloatingPointLiteral (Finite 2))) EmptyState []
     = ret (PyFloat (Finite (7 / 2)), FloatingPoint, EmptyState) [] \<and>
   evaluate 0 (Divide (FloatingPointLiteral (Finite 1)) (FloatingPointLiteral (Finite 3))) EmptyState []
     = ret (PyFloat (Finite (6004799503160661 / 2 ^ 54)), FloatingPoint, EmptyState) [] \<and>
   evaluate 0 (Divide (IntLiteral 7) (IntLiteral 0)) EmptyState [] = raise InterpMathError [] \<and>
   evaluate 0 (Divide (FloatingPointLiteral (Finite 7)) (FloatingPointLiteral NegZero)) EmptyState []
     = raise InterpMathError [] \<and>
   evaluate 0 (Divide (FloatingPointLiteral (Finite 1))
                 (Subtract (Add (FloatingPointLiteral (Finite (2 ^ 53))) (FloatingPointLiteral (Finite 1)))
                    (FloatingPointLiteral (Finite (2 ^ 53))))) EmptyState []
     = raise InterpMathError [] \<and>
   evaluate 0 (Divide (BooleanLiteral True) (BooleanLiteral False)) EmptyState []
     = raise InterpMathError [] \<and>
   evaluate 0 (Divide (BooleanLiteral True) (BooleanLiteral True)) EmptyState []
     = raise InterpTypeError [] \<and>
   evaluate 0 (Divide (StringLiteral ''a'') (StringLiteral [])) EmptyState []
     = raise InterpTypeError []"
proof -
  have wt: "wt_state EmptyState" by simp
  have i7: "evaluate 0 (IntLiteral 7) EmptyState [] = ret (PyInt 7, Integer, EmptyState) []"
    and i2: "evaluate 0 (IntLiteral 2) EmptyState [] = ret (PyInt 2, Integer, EmptyState) []"
    and i0: "evaluate 0 (IntLiteral 0) EmptyState [] = ret (PyInt 0, Integer, EmptyState) []"
    and f7: "evaluate 0 (FloatingPointLiteral (Finite 7)) EmptyState []
               = ret (PyFloat (Finite 7), FloatingPoint, EmptyState) []"
    and f2: "evaluate 0 (FloatingPointLiteral (Finite 2)) EmptyState []
               = ret (PyFloat (Finite 2), FloatingPoint, EmptyState) []"
    and f1: "evaluate 0 (FloatingPointLiteral (Finite 1)) EmptyState []
               = ret (PyFloat (Finite 1), FloatingPoint, EmptyState) []"
    and f3: "evaluate 0 (FloatingPointLiteral (Finite 3)) EmptyState []
               = ret (PyFloat (Finite 3), FloatingPoint, EmptyState) []"
    and fz: "evaluate 0 (FloatingPointLiteral NegZero) EmptyState []
               = ret (PyFloat NegZero, FloatingPoint, EmptyState) []"
    and bt: "evaluate 0 (BooleanLiteral True) EmptyState [] = ret (PyBool True, Boolean, EmptyState) []"
    and bf: "evaluate 0 (BooleanLiteral False) EmptyState [] = ret (PyBool False, Boolean, EmptyState) []"
    and sa: "evaluate 0 (StringLiteral ''a'') EmptyState [] = ret (PyStr ''a'', String, EmptyState) []"
    and se: "evaluate 0 (StringLiteral []) EmptyState [] = ret (PyStr [], String, EmptyState) []"
    by simp_all
  have "round64 (2 ^ 53 + 1) = Finite (2 ^ 53)"
    by (simp add: float_eval)
  then have "float_sub (float_add (Finite (2 ^ 53)) (Finite 1)) (Finite (2 ^ 53)) = Finite 0"
    by (simp add: float_sub_def round64_def)
  then have sub: "evaluate 0 (Subtract (Add (FloatingPointLiteral (Finite (2 ^ 53))) (FloatingPointLiteral (Finite 1)))
                    (FloatingPointLiteral (Finite (2 ^ 53)))) EmptyState []
               = ret (PyFloat (Finite 0), FloatingPoint, EmptyState) []"
    by (simp add: host_def arith_def py_sub_def)
  have z: "py_eq_zero (PyInt 0)" "py_eq_zero (PyFloat NegZero)" "py_eq_zero (PyFloat (Finite 0))"
    "py_eq_zero (PyBool False)" "\<not> py_eq_zero (PyInt 2)" "\<not> py_eq_zero (PyFloat (Finite 2))"
    "\<not> py_eq_zero (PyFloat (Finite 3))" "\<not> py_eq_zero (PyBool True)" "\<not> py_eq_zero (PyStr [])"
    by (simp_all add: py_eq_zero_cases float_is_zero_def)
  have q: "(7::int) div 2 = 3" by simp
  have d72: "float_div (Finite 7) (Finite 2) = Finite (7 / 2)"
    by (simp add: float_div_finite) (simp add: float_eval)
  have d13: "float_div (Finite 1) (Finite 3) = Finite (6004799503160661 / 2 ^ 54)"
    by (simp add: float_div_finite) (simp add: float_eval)
  from divide_semantics [OF i7 i2 refl] wt z q
  have r1: "evaluate 0 (Divide (IntLiteral 7) (IntLiteral 2)) EmptyState []
     = ret (PyInt 3, Integer, EmptyState) []"
    by auto
  from divide_semantics [OF f7 f2 refl] wt z d72
  have r2: "evaluate 0 (Divide (FloatingPointLiteral (Finite 7)) (FloatingPointLiteral (Finite 2))) EmptyState []
     = ret (PyFloat (Finite (7 / 2)), FloatingPoint, EmptyState) []"
    by auto
  from divide_semantics [OF f1 f3 refl] wt z d13
  have r3: "evaluate 0 (Divide (FloatingPointLiteral (Finite 1)) (FloatingPointLiteral (Finite 3))) EmptyState []
     = ret (PyFloat (Finite (6004799503160661 / 2 ^ 54)), FloatingPoint, EmptyState) []"
    by auto
  from divide_semantics [OF i7 i0 refl] z
  have r4: "evaluate 0 (Divide (IntLiteral 7) (IntLiteral 0)) EmptyState [] = raise InterpMathError []"
    by blast
  from divide_semantics [OF f7 fz refl] z
  have r5: "evaluate 0 (Divide (FloatingPointLiteral (Finite 7)) (FloatingPointLiteral NegZero)) EmptyState []
     = raise InterpMathError []"
    by blast
  from divide_semantics [OF f1 sub refl] z
  have r6: "evaluate 0 (Divide (FloatingPointLiteral (Finite 1))
                 (Subtract (Add (FloatingPointLiteral (Finite (2 ^ 53))) (FloatingPointLiteral (Finite 1)))
                    (FloatingPointLiteral (Finite (2 ^ 53))))) EmptyState []
     = raise InterpMathError []"
    by blast
  from divide_semantics [OF bt bf refl] z
  have r7: "evaluate 0 (Divide (BooleanLiteral True) (BooleanLiteral False)) EmptyState []
     = raise InterpMathError []"
    by blast
  from divide_semantics [OF bt bt refl] z
  have r8: "evaluate 0 (Divide (BooleanLiteral True) (BooleanLiteral True)) EmptyState []
     = raise InterpTypeError []"
    by auto
  from divide_semantics [OF sa se refl] z
  have r9: "evaluate 0 (Divide (StringLiteral ''a'') (StringLiteral [])) EmptyState []
     = raise InterpTypeError []"
    by auto
  from wt i7 i2 r1 r2 r3 r4 r5 r6 r7 r8 r9 show ?thesis by blast
qed

section \<open>Logical operators\<close>

text \<open>
  C3. \<open>And\<close> and \<open>Or\<close> do not short-circuit. Once the left operand has returned,
  the right operand is evaluated in the environment (and after the prints) the left one
  produced, whatever the left value is: if the right operand does not finish, neither
  does the operator; if it raises, the operator raises the same error; if it returns,
  the operator returns in the environment the right operand produced, so a binding made
  there is in the result. Both operands must have type Boolean, else the type-class
  error is raised. On well-tagged environments the value is the conjunction,
  respectively the disjunction, of the two booleans.
\<close>

theorem and_or_semantics:
  assumes "evaluate n left env out = ret (lv, lt, env1) out1"
  shows "(evaluate n right env1 out1 = None \<longrightarrow>
            evaluate n (And left right) env out = None \<and>
            evaluate n (Or left right) env out = None) \<and>
         (\<forall>e out2. evaluate n right env1 out1 = raise e out2 \<longrightarrow>
            evaluate n (And left right) env out = raise e out2 \<and>
            evaluate n (Or left right) env out = raise e out2) \<and>
         (\<forall>rv rt env2 out2. evaluate n right env1 out1 = ret (rv, rt, env2) out2 \<longrightarrow>
            (lt = Boolean \<and> rt = Boolean \<longrightarrow>
               evaluate n (And left right) env out = ret (py_and lv rv, Boolean, env2) out2 \<and>
               evaluate n (Or left right) env out = ret (py_or lv rv, Boolean, env2) out2) \<and>
            (\<not> (lt = Boolean \<and> rt = Boolean) \<longrightarrow>
               evaluate n (And left right) env out = raise InterpTypeError out2 \<and>
               evaluate n (Or left right) env out = raise InterpTypeError out2) \<and>
            (wt_state env \<and> lt = Boolean \<and> rt = Boolean \<longrightarrow>
               (\<exists>p q. lv = PyBool p \<and> rv = PyBool q \<and>
                  py_and lv rv = PyBool (p \<and> q) \<and> py_or lv rv = PyBool (p \<or> q))))"
proof (intro conjI allI impI)
  fix rv rt env2 out2
  assume r: "evaluate n right env1 out1 = ret (rv, rt, env2) out2"
    and wt: "wt_state env \<and> lt = Boolean \<and> rt = Boolean"
  from wt evaluate_wt [OF _ assms] have l: "wt_val lv Boolean" "wt_state env1" by auto
  from wt evaluate_wt(1) [OF l(2) r] have "wt_val rv Boolean" by auto
  with l(1) py_and_wt [of lv rv] py_or_wt [of lv rv]
  show "\<exists>p q. lv = PyBool p \<and> rv = PyBool q \<and>
          py_and lv rv = PyBool (p \<and> q) \<and> py_or lv rv = PyBool (p \<or> q)"
    by auto
qed (use assms in \<open>auto simp: raise_def\<close>)

theorem and_or_semantics_witness:
  "evaluate 0 (BooleanLiteral False) EmptyState [] = ret (PyBool False, Boolean, EmptyState) [] \<and>
   evaluate 0 (And (BooleanLiteral False) (Assign ''x'' (BooleanLiteral True))) EmptyState []
     = ret (PyBool False, Boolean, State ''x'' (PyBool True) Boolean EmptyState) [] \<and>
   evaluate 0 (Or (BooleanLiteral True) (Assign ''x'' (BooleanLiteral False))) EmptyState []
     = ret (PyBool True, Boolean, State ''x'' (PyBool False) Boolean EmptyState) [] \<and>
   evaluate 0 (And (BooleanLiteral False) (Variable ''y'')) EmptyState []
     = raise InterpSyntaxError [] \<and>
   evaluate 0 (Or (BooleanLiteral True) (IntLiteral 1)) EmptyState []
     = raise InterpTypeError [] \<and>
   evaluate 0 (And (BooleanLiteral False) (While (BooleanLiteral True) Ren)) EmptyState [] = None"
  using and_or_semantics [of 0 "BooleanLiteral False" EmptyState "[]" "PyBool False" Boolean EmptyState "[]"
          "Assign ''x'' (BooleanLiteral True)"]
    and_or_semantics [of 0 "BooleanLiteral True" EmptyState "[]" "PyBool True" Boolean EmptyState "[]"
          "Assign ''x'' (BooleanLiteral False)"]
    and_or_semantics [of 0 "BooleanLiteral False" EmptyState "[]" "PyBool False" Boolean EmptyState "[]"
          "Variable ''y''"]
    and_or_semantics [of 0 "BooleanLiteral True" EmptyState "[]" "PyBool True" Boolean EmptyState "[]"
          "IntLiteral 1"]
    and_or_semantics [of 0 "BooleanLiteral False" EmptyState "[]" "PyBool False" Boolean EmptyState "[]"
          "While (BooleanLiteral True) Ren"]
  by (simp add: ret_def raise_def set_value_def py_and_def py_or_def)

section \<open>Comparisons\<close>

text \<open>
  C7. When both operands of a comparison evaluate to type Unit, the result is a Boolean
  constant that depends on no value: \<open>Lt\<close> gives false, \<open>Lte\<close> true, \<open>Gt\<close> false,
  \<open>Gte\<close> true, \<open>Eq\<close> true and \<open>Ne\<close> false, in the environment left by the right
  operand.
\<close>

theorem unit_comparisons:
  assumes "evaluate n left env out = ret (lv, Unit, env1) out1"
    and "evaluate n right env1 out1 = ret (rv, Unit, env2) out2"
  shows "evaluate n (Lt left right) env out = ret (PyBool False, Boolean, env2) out2 \<and>
         evaluate n (Lte left right) env out = ret (PyBool True, Boolean, env2) out2 \<and>
         evaluate n (Gt left right) env out = ret (PyBool False, Boolean, env2) out2 \<and>
         evaluate n (Gte left right) env out = ret (PyBool True, Boolean, env2) out2 \<and>
         evaluate n (Eq left right) env out = ret (PyBool True, Boolean, env2) out2 \<and>
         evaluate n (Ne left right) env out = ret (PyBool False, Boolean, env2) out2"
  using assms by simp

theorem unit_comparisons_witness:
  "evaluate 0 Ren EmptyState [] = ret (PyNone, Unit, EmptyState) [] \<and>
   evaluate 0 (Lt Ren Ren) EmptyState [] = ret (PyBool False, Boolean, EmptyState) [] \<and>
   evaluate 0 (Lte Ren Ren) EmptyState [] = ret (PyBool True, Boolean, EmptyState) [] \<and>
   evaluate 0 (Gt Ren Ren) EmptyState [] = ret (PyBool False, Boolean, EmptyState) [] \<and>
   evaluate 0 (Gte Ren Ren) EmptyState [] = ret (PyBool True, Boolean, EmptyState) [] \<and>
   evaluate 0 (Eq Ren Ren) EmptyState [] = ret (PyBool True, Boolean, EmptyState) [] \<and>
   evaluate 0 (Ne Ren Ren) EmptyState [] = ret (PyBool False, Boolean, EmptyState) []"
  using unit_comparisons [of 0 Ren EmptyState "[]" PyNone EmptyState "[]" Ren PyNone EmptyState "[]"]
  by simp

section \<open>Conditional\<close>

text \<open>
  C5. Let the condition of \<open>If_e condition true false\<close> return \<open>(cv, ct, env1)\<close>. If
  \<open>ct\<close> is not Boolean the type-class error is raised. Otherwise the conditional is
  the evaluation of one branch in \<open>env1\<close>, after the prints of the condition: the
  branch \<open>true\<close> if the value is true, else the branch \<open>false\<close>. The other branch is
  not evaluated: the outcome (value, environment, error, prints, and whether the
  evaluation finishes) is the same whatever expression stands in its place. On
  well-tagged environments the condition value is a boolean.
\<close>

theorem if_semantics:
  assumes "evaluate n condition env out = ret (cv, ct, env1) out1"
  shows "(ct \<noteq> Boolean \<longrightarrow>
            evaluate n (If_e condition true false) env out = raise InterpTypeError out1) \<and>
         (ct = Boolean \<and> py_truthy cv \<longrightarrow>
            (\<forall>other. evaluate n (If_e condition true other) env out
                       = evaluate n true env1 out1)) \<and>
         (ct = Boolean \<and> \<not> py_truthy cv \<longrightarrow>
            (\<forall>other. evaluate n (If_e condition other false) env out
                       = evaluate n false env1 out1)) \<and>
         (wt_state env \<and> ct = Boolean \<longrightarrow> cv = PyBool (py_truthy cv))"
proof (intro conjI allI impI)
  assume wt: "wt_state env \<and> ct = Boolean"
  with evaluate_wt(1) [OF _ assms] have "wt_val cv Boolean" by auto
  then show "cv = PyBool (py_truthy cv)" by (cases cv) auto
qed (use assms in auto)

theorem if_semantics_witness:
  "evaluate 0 (BooleanLiteral True) EmptyState [] = ret (PyBool True, Boolean, EmptyState) [] \<and>
   evaluate 0 (If_e (BooleanLiteral True) (IntLiteral 1) (While (BooleanLiteral True) Ren)) EmptyState []
     = ret (PyInt 1, Integer, EmptyState) [] \<and>
   evaluate 0 (If_e (BooleanLiteral False) (Print (Assign ''x'' (Variable ''y''))) (IntLiteral 2)) EmptyState []
     = ret (PyInt 2, Integer, EmptyState) [] \<and>
   evaluate 0 (If_e (IntLiteral 1) (IntLiteral 1) (IntLiteral 2)) EmptyState []
     = raise InterpTypeError []"
  using if_semantics [of 0 "BooleanLiteral True" EmptyState "[]" "PyBool True" Boolean EmptyState "[]"
          "IntLiteral 1" "While (BooleanLiteral True) Ren"]
    if_semantics [of 0 "BooleanLiteral False" EmptyState "[]" "PyBool False" Boolean EmptyState "[]"
          "Print (Assign ''x'' (Variable ''y''))" "IntLiteral 2"]
    if_semantics [of 0 "IntLiteral 1" EmptyState "[]" "PyInt 1" Integer EmptyState "[]"
          "IntLiteral 1" "IntLiteral 2"]
  by (simp add: ret_def raise_def)

section \<open>Loops\<close>

text \<open>
  C4. Whenever the evaluation of \<open>While condition body\<close> returns, it returns the type
  Boolean and a false value, which is what an evaluation of the condition returned
  last, in the environment that evaluation produced; in a well-tagged environment the
  value is the boolean False. It is never the value of the body. When the condition is
  false at the first check, the loop returns at once, whatever the body is: the body is
  not evaluated. The condition must have type Boolean at the first check and at every
  later one: a check after an iteration that finds another type raises the type-class
  error.
\<close>

theorem while_semantics:
  "(\<forall>v t env' out'. evaluate n (While condition body) env out = ret (v, t, env') out' \<longrightarrow>
      t = Boolean \<and> \<not> py_truthy v \<and> (wt_state env \<longrightarrow> v = PyBool False) \<and>
      (\<exists>k env_k out_k. k \<le> n \<and> evaluate k condition env_k out_k = ret (v, t, env') out')) \<and>
   (\<forall>cv ct env1 out1. evaluate n condition env out = ret (cv, ct, env1) out1 \<longrightarrow>
      (ct \<noteq> Boolean \<longrightarrow>
         evaluate n (While condition body) env out = raise InterpTypeError out1) \<and>
      (ct = Boolean \<and> \<not> py_truthy cv \<longrightarrow>
         (\<forall>other. evaluate n (While condition other) env out = ret (cv, Boolean, env1) out1))) \<and>
   (\<forall>k result st out0 bv bt st1 out1 cv ct st2 out2.
      py_truthy result \<and> evaluate k body st out0 = ret (bv, bt, st1) out1 \<and>
      evaluate k condition st1 out1 = ret (cv, ct, st2) out2 \<and> ct \<noteq> Boolean \<longrightarrow>
        while_loop (Suc k) condition body result Boolean st out0 = raise InterpTypeError out2)"
proof (intro conjI allI impI)
  fix v t env' out'
  assume ev: "evaluate n (While condition body) env out = ret (v, t, env') out'"
  then obtain cv st1 out1
    where cond: "evaluate n condition env out = ret (cv, Boolean, st1) out1"
      and loop: "while_loop n condition body cv Boolean st1 out1 = ret (v, t, env') out'"
    by (auto simp: and_then_ret_iff outcome_simps split: if_splits)
  from while_loop_exit [OF loop] show t: "t = Boolean" and f: "\<not> py_truthy v" by simp_all
  from while_loop_exit [OF loop] consider "v = cv \<and> env' = st1 \<and> out' = out1"
    | j st_j out_j where "j < n" "evaluate j condition st_j out_j = ret (v, t, env') out'"
    by blast
  then show "\<exists>k env_k out_k. k \<le> n \<and> evaluate k condition env_k out_k = ret (v, t, env') out'"
  proof cases
    case 1
    with cond t have "evaluate n condition env out = ret (v, t, env') out'" by simp
    then show ?thesis by blast
  next
    case 2
    then have "j \<le> n" by simp
    with 2 show ?thesis by blast
  qed
  {
    assume "wt_state env"
    from evaluate_wt(1) [OF this ev] t have "wt_val v Boolean" by simp
    with f show "v = PyBool False" by (cases v) auto
  }
qed (auto simp: outcome_simps while_loop_false)

theorem while_semantics_witness:
  "evaluate 0 (BooleanLiteral False) EmptyState [] = ret (PyBool False, Boolean, EmptyState) [] \<and>
   evaluate 0 (While (BooleanLiteral False) (Variable ''y'')) EmptyState []
     = ret (PyBool False, Boolean, EmptyState) [] \<and>
   evaluate 0 (IntLiteral 1) EmptyState [] = ret (PyInt 1, Integer, EmptyState) [] \<and>
   evaluate 0 (While (IntLiteral 1) Ren) EmptyState [] = raise InterpTypeError [] \<and>
   evaluate 2 (While (Lt (Variable ''i'') (IntLiteral 2))
                 (Assign ''i'' (Add (Variable ''i'') (IntLiteral 1))))
       (State ''i'' (PyInt 0) Integer EmptyState) []
     = ret (PyBool False, Boolean,
            State ''i'' (PyInt 2) Integer (State ''i'' (PyInt 1) Integer
              (State ''i'' (PyInt 0) Integer EmptyState))) [] \<and>
   (\<exists>k env_k out_k. k \<le> 2 \<and>
      evaluate k (Lt (Variable ''i'') (IntLiteral 2)) env_k out_k
        = ret (PyBool False, Boolean,
            State ''i'' (PyInt 2) Integer (State ''i'' (PyInt 1) Integer
              (State ''i'' (PyInt 0) Integer EmptyState))) []) \<and>
   evaluate 1 (While (If_e (Eq (Variable ''i'') (IntLiteral 0)) (BooleanLiteral True) (IntLiteral 5))
                 (Assign ''i'' (IntLiteral 1)))
       (State ''i'' (PyInt 0) Integer EmptyState) []
     = raise InterpTypeError []"
proof -
  have c1: "evaluate 0 (BooleanLiteral False) EmptyState [] = ret (PyBool False, Boolean, EmptyState) []"
    by simp
  have c2: "evaluate 0 (IntLiteral 1) EmptyState [] = ret (PyInt 1, Integer, EmptyState) []"
    by simp
  have f: "\<not> py_truthy (PyBool False)" "Integer \<noteq> Boolean"
    by simp_all
  have l: "evaluate 2 (While (Lt (Variable ''i'') (IntLiteral 2))
                 (Assign ''i'' (Add (Variable ''i'') (IntLiteral 1))))
       (State ''i'' (PyInt 0) Integer EmptyState) []
     = ret (PyBool False, Boolean,
            State ''i'' (PyInt 2) Integer (State ''i'' (PyInt 1) Integer
              (State ''i'' (PyInt 0) Integer EmptyState))) []"
    by (simp add: numeral_2_eq_2 ret_def set_value_def host_def arith_def rank_less_def)
  have r: "evaluate 1 (While (If_e (Eq (Variable ''i'') (IntLiteral 0)) (BooleanLiteral True) (IntLiteral 5))
                 (Assign ''i'' (IntLiteral 1)))
       (State ''i'' (PyInt 0) Integer EmptyState) []
     = raise InterpTypeError []"
    by (simp add: ret_def set_value_def host_def rank_eq_def)
  from while_semantics [of 0 "BooleanLiteral False" "Variable ''y''" EmptyState "[]"] c1 f
  have w1: "evaluate 0 (While (BooleanLiteral False) (Variable ''y'')) EmptyState []
     = ret (PyBool False, Boolean, EmptyState) []"
    by blast
  from while_semantics [of 0 "IntLiteral 1" Ren EmptyState "[]"] c2 f
  have w2: "evaluate 0 (While (IntLiteral 1) Ren) EmptyState [] = raise InterpTypeError []"
    by blast
  note p = while_semantics [of 2 "Lt (Variable ''i'') (IntLiteral 2)"
         "Assign ''i'' (Add (Variable ''i'') (IntLiteral 1))"
         "State ''i'' (PyInt 0) Integer EmptyState" "[]", THEN conjunct1, rule_format, OF l]
  note w3 = p [THEN conjunct2, THEN conjunct2, THEN conjunct2]
  from c1 c2 l r w1 w2 w3 show ?thesis by blast
qed

end
